theory Spec2Isabelle
  imports Main "HOL-Library.Multiset"
begin

section \<open>Data model\<close>

text \<open>
  The controllers under verification are \<open>OrderController\<close> (checkout, createOrder,
  parseOrderJSON, generateReceipt) and \<open>ProductController\<close>. JavaScript numbers are
  modelled as integers (quantities, and prices in the smallest currency unit); strings
  and dates (ISO strings) as \<open>string\<close>; a value that may be \<open>null\<close> or \<open>undefined\<close>
  as \<open>option\<close>.
\<close>

record product =
  p_id :: string
  p_name :: string
  p_price :: int

text \<open>A line item \<open>{ product, quantity }\<close> of a cart, an order or a receipt draft.\<close>

record line =
  product :: product
  quantity :: int

record cart =
  c_id :: string
  c_userId :: string
  c_items :: "line list"

record user =
  u_id :: string
  u_address :: "string option"
  u_cart :: "string option"

text \<open>\<open>Partial<JointPayment>\<close> of models/payment.ts: every field may be absent.\<close>

record payment_details =
  pd_id :: "string option"
  pd_type :: "string option"
  pd_amount :: "int option"
  pd_date :: "string option"
  pd_status :: "string option"
  pd_cardNumber :: "string option"
  pd_expiryDate :: "string option"
  pd_paymentGateway :: "string option"

text \<open>
  A payment object. The base class of models/payment.ts has \<open>id\<close> (null until stored),
  \<open>amount\<close>, \<open>date\<close> and \<open>status\<close>; the card attributes belong to its subclasses. At run
  time a field holds whatever the builder was handed, so each field is an option.
\<close>

record payment =
  pay_id :: "string option"
  pay_type :: "string option"
  pay_amount :: "int option"
  pay_date :: "string option"
  pay_status :: "string option"
  pay_cardNumber :: "string option"
  pay_expiryDate :: "string option"
  pay_paymentGateway :: "string option"

text \<open>The fields of \<open>Partial<JointShipment>\<close> that checkout reads or rewrites.\<close>

record shipment_details =
  sd_type :: "string option"
  sd_address :: "string option"

record shipment =
  sh_id :: "string option"
  sh_type :: string
  sh_fee :: int
  sh_address :: "string option"

text \<open>The persisted order: \<open>OrderJSON\<close>, with its items \<open>{ productId, quantity }\<close>.\<close>

record item_json =
  ji_productId :: string
  ji_quantity :: int

record order_json =
  j_userId :: string
  j_id :: string
  j_orderDate :: string
  j_items :: "item_json list"
  j_paymentId :: "string option"
  j_shipmentId :: "string option"
  j_status :: string
  j_cancellation :: bool

record order =
  o_userId :: string
  o_id :: "string option"
  o_orderDate :: string
  o_items :: "line list"
  o_payment :: "payment option"
  o_shipment :: "shipment option"
  o_status :: string
  o_cancellation :: bool

record receipt_line =
  rl_product :: product
  rl_quantity :: int
  rl_price :: int

record receipt =
  r_orderId :: "string option"
  r_user :: user
  r_items :: "receipt_line list"
  r_total :: int
  r_payment :: "payment option"
  r_shipment :: "shipment option"

text \<open>
  Failures. Every \<open>throw new Error(message)\<close> of the source is \<open>Error message\<close>;
  \<open>TypeError\<close> is the run-time failure of reading a property of \<open>null\<close>. The names of
  the error taxonomy abbreviate the thrown messages.
\<close>

datatype error = Error string | TypeError

abbreviation Unauthenticated :: error where
  "Unauthenticated \<equiv> Error ''User not logged in''"

abbreviation InvalidInput :: error where
  "InvalidInput \<equiv> Error ''Payment and shipment type must be provided''"

abbreviation EmptyCart :: error where
  "EmptyCart \<equiv> Error ''Cart is empty''"

abbreviation InsufficientStock :: error where
  "InsufficientStock \<equiv> Error ''One or more products are not available''"

abbreviation ProductNotFound :: "string \<Rightarrow> error" where
  "ProductNotFound productId \<equiv> Error (''Product not found: '' @ productId)"

abbreviation UserNotFound :: "string \<Rightarrow> error" where
  "UserNotFound userId \<equiv> Error (''User not found: '' @ userId)"

abbreviation InvalidOrder :: error where
  "InvalidOrder \<equiv> Error ''Order is not valid''"

section \<open>Stores and collaborators\<close>

text \<open>A write to one of the stores; the journal lists them in the order they complete.\<close>

datatype store_write =
    ShipmentStored string
  | PaymentStored string
  | OrderCreated string
  | QuantityUpdated string int
  | CartEmptied "string option"

text \<open>
  The state checkout runs against: the static \<open>AccountController.loggedInUser\<close>, and
  the contents of the account, product, cart, catalogue, shipment, payment and order
  stores. \<open>journal\<close> records the store writes performed so far.
\<close>

record world =
  loggedInUser :: "string option"
  accounts :: "string \<Rightarrow> user option"
  products :: "string \<Rightarrow> product option"
  carts :: "cart list"
  catalogue :: "string \<Rightarrow> int"
  shipments :: "shipment list"
  payments :: "payment list"
  orders :: "order_json list"
  journal :: "store_write list"

text \<open>
  What one call of checkout receives from outside the program: the clock
  (\<open>new Date().toISOString()\<close>), the shipment builder, the identifiers the three stores
  assign, and the scheduler's picks that decide in which order the concurrent stock
  updates complete.
\<close>

record services =
  now :: string
  createShipmentObject :: "shipment_details \<Rightarrow> shipment"
  newShipmentId :: string
  newPaymentId :: string
  newOrderId :: string
  completion :: "nat list"

text \<open>JavaScript truthiness of an optional string: absent and the empty string are falsy.\<close>

fun truthy :: "string option \<Rightarrow> bool" where
  "truthy None = False"
| "truthy (Some s) = (s \<noteq> [])"

text \<open>\<open>a || b\<close> on optional strings.\<close>

definition orElse :: "string option \<Rightarrow> string option \<Rightarrow> string option" where
  "orElse a b = (if truthy a then a else b)"

text \<open>
  Modelled from the spec: \<open>AccountController.getAccount\<close> is missing from the sources;
  account access resolves a user identifier to a user, or to nothing.
\<close>

definition getAccount :: "world \<Rightarrow> string \<Rightarrow> user option" where
  "getAccount w userId = accounts w userId"

text \<open>
  Modelled from the spec: \<open>CartController.getCart\<close> is missing from the sources; cart
  access returns the cart owned by the user.
\<close>

definition getCart :: "world \<Rightarrow> string \<Rightarrow> cart option" where
  "getCart w userId = find (\<lambda>c. c_userId c = userId) (carts w)"

text \<open>
  Modelled from the spec: \<open>CartController.emptyCart\<close> is missing from the sources; it
  clears the items of the cart with the given identifier.
\<close>

definition emptyCart :: "string option \<Rightarrow> world \<Rightarrow> world" where
  "emptyCart cartId w =
     w\<lparr>carts := map (\<lambda>c. if Some (c_id c) = cartId then c\<lparr>c_items := []\<rparr> else c) (carts w),
       journal := journal w @ [CartEmptied cartId]\<rparr>"

text \<open>
  Modelled from the spec: the \<open>Cart\<close> class is missing from the sources; the subtotal
  of a cart is the sum of price times quantity over its lines.
\<close>

definition getSubtotalPrice :: "cart \<Rightarrow> int" where
  "getSubtotalPrice c = sum_list (map (\<lambda>item. p_price (product item) * quantity item) (c_items c))"

text \<open>
  Modelled from the spec: \<open>CatalogueController\<close> and the \<open>Catalogue\<close> class are missing
  from the sources; a catalogue snapshot gives the available quantity of each product,
  and an update overwrites the quantity of one product.
\<close>

definition getCatalogue :: "world \<Rightarrow> string \<Rightarrow> int" where
  "getCatalogue w = catalogue w"

definition getItemQuantity :: "(string \<Rightarrow> int) \<Rightarrow> product \<Rightarrow> int" where
  "getItemQuantity snapshot p = snapshot (p_id p)"

definition updateProductQuantity :: "string \<times> int \<Rightarrow> world \<Rightarrow> world" where
  "updateProductQuantity u w =
     w\<lparr>catalogue := (catalogue w)(fst u := snd u),
       journal := journal w @ [QuantityUpdated (fst u) (snd u)]\<rparr>"

text \<open>
  The order in which concurrently issued calls complete: each pick selects one of the
  calls still pending; when the picks run out the rest complete in the order issued.
\<close>

function completionOrder :: "nat list \<Rightarrow> 'a list \<Rightarrow> 'a list" where
  "completionOrder ks [] = []"
| "completionOrder [] (x # xs) = x # xs"
| "completionOrder (k # ks) (x # xs) =
     (x # xs) ! (k mod length (x # xs))
       # completionOrder ks (take (k mod length (x # xs)) (x # xs)
                              @ drop (Suc (k mod length (x # xs))) (x # xs))"
  by pat_completeness auto
termination
  by (relation "measure (\<lambda>(ks, xs). length xs)") (auto simp: min_def)

text \<open>\<open>ProductController.get\<close>: the product repository's lookup by identifier.\<close>

definition ProductController_get :: "world \<Rightarrow> string \<Rightarrow> product option" where
  "ProductController_get w productId = products w productId"

text \<open>
  Modelled from the spec: \<open>PaymentController\<close> is missing from the sources. The builder
  constructs an unsaved payment from the supplied attributes; the store assigns an
  identifier and keeps the payment; lookup is by identifier.
\<close>

definition createPaymentObject :: "payment_details \<Rightarrow> payment" where
  "createPaymentObject d =
     \<lparr>pay_id = pd_id d, pay_type = pd_type d, pay_amount = pd_amount d, pay_date = pd_date d,
      pay_status = pd_status d, pay_cardNumber = pd_cardNumber d,
      pay_expiryDate = pd_expiryDate d, pay_paymentGateway = pd_paymentGateway d\<rparr>"

definition storePayment :: "services \<Rightarrow> payment \<Rightarrow> world \<Rightarrow> payment \<times> world" where
  "storePayment sv p w =
     (let stored = p\<lparr>pay_id := Some (newPaymentId sv)\<rparr>
      in (stored, w\<lparr>payments := payments w @ [stored],
                    journal := journal w @ [PaymentStored (newPaymentId sv)]\<rparr>))"

definition getPaymentById :: "world \<Rightarrow> string option \<Rightarrow> payment option" where
  "getPaymentById w paymentId =
     (case paymentId of None \<Rightarrow> None
      | Some i \<Rightarrow> find (\<lambda>p. pay_id p = Some i) (payments w))"

text \<open>
  Modelled from the spec: \<open>ShipmentController\<close> is missing from the sources. The store
  assigns an identifier and keeps the shipment; lookup is by identifier. (The builder is
  a parameter, \<open>createShipmentObject\<close>: the spec does not say how a fee is determined.)
\<close>

definition storeShipment :: "services \<Rightarrow> shipment \<Rightarrow> world \<Rightarrow> shipment \<times> world" where
  "storeShipment sv s w =
     (let stored = s\<lparr>sh_id := Some (newShipmentId sv)\<rparr>
      in (stored, w\<lparr>shipments := shipments w @ [stored],
                    journal := journal w @ [ShipmentStored (newShipmentId sv)]\<rparr>))"

definition getShipmentById :: "world \<Rightarrow> string option \<Rightarrow> shipment option" where
  "getShipmentById w shipmentId =
     (case shipmentId of None \<Rightarrow> None
      | Some i \<Rightarrow> find (\<lambda>s. sh_id s = Some i) (shipments w))"

text \<open>
  Modelled from the spec: \<open>OrderRepository\<close> is missing from the sources;
  \<open>create(userId, items, paymentId, shipmentId, status, cancellation)\<close> assigns an
  identifier and a date and keeps the record.
\<close>

definition OrderRepository_create ::
  "services \<Rightarrow> string \<Rightarrow> item_json list \<Rightarrow> string option \<Rightarrow> string option \<Rightarrow> string \<Rightarrow> bool
     \<Rightarrow> world \<Rightarrow> order_json \<times> world" where
  "OrderRepository_create sv userId items paymentId shipmentId status cancellation w =
     (let record = \<lparr>j_userId = userId, j_id = newOrderId sv, j_orderDate = now sv,
                     j_items = items, j_paymentId = paymentId, j_shipmentId = shipmentId,
                     j_status = status, j_cancellation = cancellation\<rparr>
      in (record, w\<lparr>orders := orders w @ [record],
                    journal := journal w @ [OrderCreated (newOrderId sv)]\<rparr>))"

text \<open>
  Modelled from the spec: the \<open>Order\<close> class is missing from the sources. A new order
  of a user has no identifier, no items, no payment and no shipment, and is \<open>Pending\<close>
  and not cancelled; \<open>addItem\<close> appends a line; \<open>getTotalPrice\<close> is the sum of price
  times quantity over the items; \<open>verify\<close> holds of an order with a non-empty item
  list, a set payment and a set shipment.
\<close>

definition new_Order :: "services \<Rightarrow> string \<Rightarrow> order" where
  "new_Order sv userId =
     \<lparr>o_userId = userId, o_id = None, o_orderDate = now sv, o_items = [], o_payment = None,
      o_shipment = None, o_status = ''Pending'', o_cancellation = False\<rparr>"

definition addItem :: "product \<Rightarrow> int \<Rightarrow> order \<Rightarrow> order" where
  "addItem p q ord = ord\<lparr>o_items := o_items ord @ [\<lparr>product = p, quantity = q\<rparr>]\<rparr>"

definition setShipment :: "shipment \<Rightarrow> order \<Rightarrow> order" where
  "setShipment s ord = ord\<lparr>o_shipment := Some s\<rparr>"

definition setPayment :: "payment \<Rightarrow> order \<Rightarrow> order" where
  "setPayment p ord = ord\<lparr>o_payment := Some p\<rparr>"

definition getTotalPrice :: "order \<Rightarrow> int" where
  "getTotalPrice ord = sum_list (map (\<lambda>item. p_price (product item) * quantity item) (o_items ord))"

definition verify :: "order \<Rightarrow> bool" where
  "verify ord = (o_items ord \<noteq> [] \<and> o_payment ord \<noteq> None \<and> o_shipment ord \<noteq> None)"

section \<open>OrderController\<close>

text \<open>
  \<open>parseOrderJSON\<close>: each persisted line is resolved through \<open>ProductController.get\<close>;
  an identifier that does not resolve throws. The lookups are awaited together; the
  model reports the first unresolved line in list order. Then the payment and the
  shipment are looked up by identifier.
\<close>

fun resolveItems :: "world \<Rightarrow> item_json list \<Rightarrow> error + line list" where
  "resolveItems w [] = Inr []"
| "resolveItems w (item # items) =
     (case ProductController_get w (ji_productId item) of
        None \<Rightarrow> Inl (ProductNotFound (ji_productId item))
      | Some p \<Rightarrow>
          (case resolveItems w items of
             Inl e \<Rightarrow> Inl e
           | Inr ls \<Rightarrow> Inr (\<lparr>product = p, quantity = ji_quantity item\<rparr> # ls)))"

definition parseOrderJSON :: "world \<Rightarrow> order_json \<Rightarrow> error + order" where
  "parseOrderJSON w orderjson =
     (case resolveItems w (j_items orderjson) of
        Inl e \<Rightarrow> Inl e
      | Inr items \<Rightarrow>
          Inr \<lparr>o_userId = j_userId orderjson, o_id = Some (j_id orderjson),
               o_orderDate = j_orderDate orderjson, o_items = items,
               o_payment = getPaymentById w (j_paymentId orderjson),
               o_shipment = getShipmentById w (j_shipmentId orderjson),
               o_status = j_status orderjson, o_cancellation = j_cancellation orderjson\<rparr>)"

text \<open>
  \<open>createOrder\<close> (lines 50 to 62): the lines become \<open>{ productId, quantity }\<close>, the
  record is created with the identifiers of the given payment and shipment, status
  "Pending" and cancellation false, and what the repository returns is hydrated.
\<close>

definition createOrder ::
  "services \<Rightarrow> string \<Rightarrow> line list \<Rightarrow> payment \<Rightarrow> shipment \<Rightarrow> world \<Rightarrow> (error + order) \<times> world" where
  "createOrder sv userId prods pay ship w =
     (let items = map (\<lambda>item. \<lparr>ji_productId = p_id (product item),
                                ji_quantity = quantity item\<rparr>) prods
      in case OrderRepository_create sv userId items (pay_id pay) (sh_id ship)
                ''Pending'' False w of
           (ord, w') \<Rightarrow> (parseOrderJSON w' ord, w'))"

text \<open>
  \<open>getOrderById\<close> (lines 64 to 68); the repository's lookup is by identifier.
\<close>

definition getOrderById :: "world \<Rightarrow> string \<Rightarrow> error + order option" where
  "getOrderById w orderId =
     (case find (\<lambda>j. j_id j = orderId) (orders w) of
        None \<Rightarrow> Inr None
      | Some orderjson \<Rightarrow>
          (case parseOrderJSON w orderjson of Inl e \<Rightarrow> Inl e | Inr ord \<Rightarrow> Inr (Some ord)))"

text \<open>
  \<open>generateReceipt\<close> (lines 83 to 105): the \<open>verify\<close> check, then the lookup of the
  order's user, then the receipt. It reads the account store and the order and writes
  nothing, so it returns a result and no new world.
\<close>

definition generateReceipt :: "world \<Rightarrow> order \<Rightarrow> error + receipt" where
  "generateReceipt w ord =
     (if \<not> verify ord then Inl InvalidOrder
      else case getAccount w (o_userId ord) of
             None \<Rightarrow> Inl (UserNotFound (o_userId ord))
           | Some usr \<Rightarrow>
               Inr \<lparr>r_orderId = o_id ord, r_user = usr,
                    r_items = map (\<lambda>item. \<lparr>rl_product = product item,
                                            rl_quantity = quantity item,
                                            rl_price = p_price (product item) * quantity item\<rparr>)
                                  (o_items ord),
                    r_total = getTotalPrice ord,
                    r_payment = o_payment ord, r_shipment = o_shipment ord\<rparr>)"

text \<open>
  The same call with its effects written out: the result, and the order object and the
  stores as the call leaves them. Lines 83 to 105 call \<open>order.verify()\<close>, look the user
  up, map over \<open>order.items\<close> into a new list and call \<open>order.getTotalPrice()\<close>; none
  of these statements assigns to a field of the order or writes to a store, so on every
  path the order and the world are handed back as they were received.
\<close>

definition generateReceipt_call :: "world \<Rightarrow> order \<Rightarrow> (error + receipt) \<times> order \<times> world" where
  "generateReceipt_call w ord =
     (if \<not> verify ord then (Inl InvalidOrder, ord, w)
      else case getAccount w (o_userId ord) of
             None \<Rightarrow> (Inl (UserNotFound (o_userId ord)), ord, w)
           | Some usr \<Rightarrow>
               (Inr \<lparr>r_orderId = o_id ord, r_user = usr,
                     r_items = map (\<lambda>item. \<lparr>rl_product = product item,
                                             rl_quantity = quantity item,
                                             rl_price = p_price (product item) * quantity item\<rparr>)
                                   (o_items ord),
                     r_total = getTotalPrice ord,
                     r_payment = o_payment ord, r_shipment = o_shipment ord\<rparr>,
                ord, w))"

text \<open>Lines 133 to 138 of checkout: a delivery falls back to the user's address.\<close>

definition deliveryDefaults :: "user \<Rightarrow> shipment_details \<Rightarrow> shipment_details" where
  "deliveryDefaults usr sd =
     (if sd_type sd = Some ''delivery''
      then sd\<lparr>sd_address := orElse (sd_address sd) (u_address usr)\<rparr>
      else sd)"

text \<open>
  Lines 143 to 152 of checkout: the amount is overwritten, and a card payment gets its
  expiry date and gateway defaulted.
\<close>

definition paymentDefaults :: "services \<Rightarrow> int \<Rightarrow> payment_details \<Rightarrow> payment_details" where
  "paymentDefaults sv amount pd =
     (let pd1 = pd\<lparr>pd_amount := Some amount\<rparr>
      in if pd_type pd1 = Some ''card''
         then pd1\<lparr>pd_cardNumber := pd_cardNumber pd1,
                  pd_expiryDate := orElse (pd_expiryDate pd1) (Some (now sv)),
                  pd_paymentGateway := orElse (pd_paymentGateway pd1) (Some ''Tyro'')\<rparr>
         else pd1)"

text \<open>Lines 168 to 175: one catalogue update per ordered line, from the snapshot.\<close>

definition stockUpdates :: "(string \<Rightarrow> int) \<Rightarrow> line list \<Rightarrow> (string \<times> int) list" where
  "stockUpdates snapshot items =
     map (\<lambda>item. (p_id (product item),
                   getItemQuantity snapshot (product item) - quantity item)) items"

text \<open>
  \<open>checkout\<close> (lines 107 to 180). The tests \<open>!AccountController.loggedInUser\<close>,
  \<open>!paymentDetails.type\<close> and \<open>!shipmentDetails.type\<close> are truthiness tests: an
  absent value and the empty string both fail them. Reading \<open>user.id\<close> or
  \<open>cart.items\<close> of a missing account or cart is a \<open>TypeError\<close>. Every failure is
  returned together with the world as it is at that point, so that the writes done
  before it stay visible; nothing is undone.
\<close>

definition checkout ::
  "services \<Rightarrow> payment_details \<Rightarrow> shipment_details \<Rightarrow> world \<Rightarrow> (error + order) \<times> world" where
  "checkout sv paymentDetails shipmentDetails w =
     (case loggedInUser w of
        None \<Rightarrow> (Inl Unauthenticated, w)
      | Some uid \<Rightarrow>
     (if uid = [] then (Inl Unauthenticated, w)
      else
     (if \<not> truthy (pd_type paymentDetails) \<or> \<not> truthy (sd_type shipmentDetails)
      then (Inl InvalidInput, w)
      else
     (case getAccount w uid of
        None \<Rightarrow> (Inl TypeError, w)
      | Some usr \<Rightarrow>
     (case getCart w (u_id usr) of
        None \<Rightarrow> (Inl TypeError, w)
      | Some crt \<Rightarrow>
     (if length (c_items crt) = 0 then (Inl EmptyCart, w)
      else
     (let snapshot = getCatalogue w in
     (if list_ex (\<lambda>item. getItemQuantity snapshot (product item) < quantity item) (c_items crt)
      then (Inl InsufficientStock, w)
      else
     (let ord = fold (\<lambda>item. addItem (product item) (quantity item)) (c_items crt)
                  (new_Order sv (u_id usr));
          ship = createShipmentObject sv (deliveryDefaults usr shipmentDetails);
          ord = setShipment ship ord;
          pay = createPaymentObject
                  (paymentDefaults sv (getSubtotalPrice crt + sh_fee ship) paymentDetails);
          ord = setPayment pay ord
      in
     (case o_shipment ord of
        None \<Rightarrow> (Inl TypeError, w)
      | Some s \<Rightarrow>
     (case storeShipment sv s w of (storedShipment, w1) \<Rightarrow>
     (case o_payment ord of
        None \<Rightarrow> (Inl TypeError, w1)
      | Some p \<Rightarrow>
     (case storePayment sv p w1 of (storedPayment, w2) \<Rightarrow>
     (case createOrder sv (o_userId ord) (o_items ord) storedPayment storedShipment w2 of
        (Inl e, w3) \<Rightarrow> (Inl e, w3)
      | (Inr createdOrder, w3) \<Rightarrow>
     (let w4 = fold updateProductQuantity
                 (completionOrder (completion sv) (stockUpdates snapshot (o_items ord))) w3;
          w5 = emptyCart (u_cart usr) w4
      in (Inr createdOrder, w5))))))))))))))))"

section \<open>The stages of a checkout\<close>

text \<open>
  Names for the objects checkout builds and the states it passes through, used to state
  its properties: the shipment and the payment it constructs, the order record it
  persists, the world once shipment, payment and order are stored, and the world once
  the stock updates have completed and the cart is cleared.
\<close>

definition builtShipment :: "services \<Rightarrow> user \<Rightarrow> shipment_details \<Rightarrow> shipment" where
  "builtShipment sv usr sd = createShipmentObject sv (deliveryDefaults usr sd)"

definition builtPayment ::
  "services \<Rightarrow> user \<Rightarrow> cart \<Rightarrow> payment_details \<Rightarrow> shipment_details \<Rightarrow> payment" where
  "builtPayment sv usr crt pd sd =
     createPaymentObject
       (paymentDefaults sv (getSubtotalPrice crt + sh_fee (builtShipment sv usr sd)) pd)"

definition orderRecord :: "services \<Rightarrow> user \<Rightarrow> cart \<Rightarrow> order_json" where
  "orderRecord sv usr crt =
     \<lparr>j_userId = u_id usr, j_id = newOrderId sv, j_orderDate = now sv,
      j_items = map (\<lambda>item. \<lparr>ji_productId = p_id (product item),
                                 ji_quantity = quantity item\<rparr>) (c_items crt),
      j_paymentId = Some (newPaymentId sv), j_shipmentId = Some (newShipmentId sv),
      j_status = ''Pending'', j_cancellation = False\<rparr>"

definition persisted ::
  "services \<Rightarrow> payment_details \<Rightarrow> shipment_details \<Rightarrow> user \<Rightarrow> cart \<Rightarrow> world \<Rightarrow> world" where
  "persisted sv pd sd usr crt w =
     w\<lparr>shipments := shipments w @ [(builtShipment sv usr sd)\<lparr>sh_id := Some (newShipmentId sv)\<rparr>],
       payments := payments w @ [(builtPayment sv usr crt pd sd)\<lparr>pay_id := Some (newPaymentId sv)\<rparr>],
       orders := orders w @ [orderRecord sv usr crt],
       journal := journal w @ [ShipmentStored (newShipmentId sv), PaymentStored (newPaymentId sv),
                               OrderCreated (newOrderId sv)]\<rparr>"

definition completedUpdates :: "services \<Rightarrow> cart \<Rightarrow> world \<Rightarrow> (string \<times> int) list" where
  "completedUpdates sv crt w =
     completionOrder (completion sv) (stockUpdates (catalogue w) (c_items crt))"

definition settled ::
  "services \<Rightarrow> payment_details \<Rightarrow> shipment_details \<Rightarrow> user \<Rightarrow> cart \<Rightarrow> world \<Rightarrow> world" where
  "settled sv pd sd usr crt w =
     emptyCart (u_cart usr)
       (fold updateProductQuantity (completedUpdates sv crt w) (persisted sv pd sd usr crt w))"

text \<open>The cart lines for one product, and the products whose line exceeds the snapshot.\<close>

definition linesFor :: "string \<Rightarrow> line list \<Rightarrow> line list" where
  "linesFor productId items = filter (\<lambda>item. p_id (product item) = productId) items"

definition offending :: "(string \<Rightarrow> int) \<Rightarrow> line list \<Rightarrow> string list" where
  "offending snapshot items =
     map (\<lambda>item. p_id (product item))
       (filter (\<lambda>item. getItemQuantity snapshot (product item) < quantity item) items)"

section \<open>A concrete shop\<close>

text \<open>
  The scenario of the specification: user U, products A (price 10) and B (price 5), a
  delivery fee of 3, a card payment. The cart lines, the stock of A and of B, and the
  scheduler's picks are left open.
\<close>

definition prodA :: product where
  "prodA = \<lparr>p_id = ''A'', p_name = ''Apple'', p_price = 10\<rparr>"

definition prodB :: product where
  "prodB = \<lparr>p_id = ''B'', p_name = ''Bread'', p_price = 5\<rparr>"

definition userU :: user where
  "userU = \<lparr>u_id = ''U'', u_address = Some ''1 Main St'', u_cart = Some ''cartU''\<rparr>"

definition cartU :: "line list \<Rightarrow> cart" where
  "cartU items = \<lparr>c_id = ''cartU'', c_userId = ''U'', c_items = items\<rparr>"

definition shop :: "line list \<Rightarrow> (string \<Rightarrow> int) \<Rightarrow> world" where
  "shop items stock =
     \<lparr>loggedInUser = Some ''U'',
      accounts = [''U'' \<mapsto> userU],
      products = [''A'' \<mapsto> prodA, ''B'' \<mapsto> prodB],
      carts = [cartU items],
      catalogue = stock,
      shipments = [], payments = [], orders = [], journal = []\<rparr>"

definition stock :: "int \<Rightarrow> int \<Rightarrow> string \<Rightarrow> int" where
  "stock a b = (\<lambda>productId. 0)(''A'' := a, ''B'' := b)"

definition desk :: "nat list \<Rightarrow> services" where
  "desk picks =
     \<lparr>now = ''2024-01-01T00:00:00.000Z'',
      createShipmentObject =
        (\<lambda>d. \<lparr>sh_id = None, sh_type = (case sd_type d of None \<Rightarrow> [] | Some t \<Rightarrow> t),
                 sh_fee = 3, sh_address = sd_address d\<rparr>),
      newShipmentId = ''s1'', newPaymentId = ''p1'', newOrderId = ''o1'',
      completion = picks\<rparr>"

definition cardDetails :: payment_details where
  "cardDetails =
     \<lparr>pd_id = None, pd_type = Some ''card'', pd_amount = None, pd_date = None,
      pd_status = None, pd_cardNumber = Some ''4111111111111111'', pd_expiryDate = None,
      pd_paymentGateway = None\<rparr>"

definition deliveryDetails :: shipment_details where
  "deliveryDetails = \<lparr>sd_type = Some ''delivery'', sd_address = None\<rparr>"

text \<open>
  Cart contents: the basket of the specification's scenario (two of A, one of B); a cart
  with two lines for product A that fit the stock of 5 one by one but not together; and
  a cart whose product C is in no product store.
\<close>

definition basket :: "line list" where
  "basket = [\<lparr>product = prodA, quantity = 2\<rparr>, \<lparr>product = prodB, quantity = 1\<rparr>]"

definition doubled :: "line list" where
  "doubled = [\<lparr>product = prodA, quantity = 2\<rparr>, \<lparr>product = prodA, quantity = 4\<rparr>]"

definition prodC :: product where
  "prodC = \<lparr>p_id = ''C'', p_name = ''Cheese'', p_price = 7\<rparr>"

definition orphan :: "line list" where
  "orphan = [\<lparr>product = prodC, quantity = 1\<rparr>]"

text \<open>The order the shop's checkout returns for the given lines and payment amount.\<close>

definition placedOrder :: "line list \<Rightarrow> int \<Rightarrow> order" where
  "placedOrder items amount =
     \<lparr>o_userId = ''U'', o_id = Some ''o1'', o_orderDate = ''2024-01-01T00:00:00.000Z'',
      o_items = items,
      o_payment = Some \<lparr>pay_id = Some ''p1'', pay_type = Some ''card'', pay_amount = Some amount,
                         pay_date = None, pay_status = None,
                         pay_cardNumber = Some ''4111111111111111'',
                         pay_expiryDate = Some ''2024-01-01T00:00:00.000Z'',
                         pay_paymentGateway = Some ''Tyro''\<rparr>,
      o_shipment = Some \<lparr>sh_id = Some ''s1'', sh_type = ''delivery'', sh_fee = 3,
                          sh_address = Some ''1 Main St''\<rparr>,
      o_status = ''Pending'', o_cancellation = False\<rparr>"

text \<open>
  The shop after the basket's checkout and a later rise of the price of A from 10 to
  12; the order as it is then read back from the order store, and its receipt.
\<close>

definition dearerA :: product where
  "dearerA = prodA\<lparr>p_price := 12\<rparr>"

definition repriced :: world where
  "repriced =
     (settled (desk []) cardDetails deliveryDetails userU (cartU basket) (shop basket (stock 5 5)))
       \<lparr>products := [''A'' \<mapsto> dearerA, ''B'' \<mapsto> prodB]\<rparr>"

definition repricedOrder :: order where
  "repricedOrder =
     placedOrder [\<lparr>product = dearerA, quantity = 2\<rparr>, \<lparr>product = prodB, quantity = 1\<rparr>] 28"

definition repricedReceipt :: receipt where
  "repricedReceipt =
     \<lparr>r_orderId = Some ''o1'', r_user = userU,
      r_items = [\<lparr>rl_product = dearerA, rl_quantity = 2, rl_price = 24\<rparr>,
                 \<lparr>rl_product = prodB, rl_quantity = 1, rl_price = 5\<rparr>],
      r_total = 29,
      r_payment = o_payment repricedOrder, r_shipment = o_shipment repricedOrder\<rparr>"

text \<open>
  The receipt of the order object that the basket's checkout returned, generated after
  the price of A has risen: the object still holds product A at price 10.
\<close>

definition staleReceipt :: receipt where
  "staleReceipt =
     \<lparr>r_orderId = Some ''o1'', r_user = userU,
      r_items = [\<lparr>rl_product = prodA, rl_quantity = 2, rl_price = 20\<rparr>,
                 \<lparr>rl_product = prodB, rl_quantity = 1, rl_price = 5\<rparr>],
      r_total = 25,
      r_payment = o_payment (placedOrder basket 28),
      r_shipment = o_shipment (placedOrder basket 28)\<rparr>"

section \<open>Auxiliary lemmas\<close>

lemmas shop_defs =
  shop_def desk_def stock_def cardDetails_def deliveryDetails_def userU_def cartU_def
  prodA_def prodB_def prodC_def basket_def doubled_def orphan_def getAccount_def getCart_def getCatalogue_def getItemQuantity_def

lemma fold_addItem:
  "fold (\<lambda>item. addItem (product item) (quantity item)) items ord
     = ord\<lparr>o_items := o_items ord @ items\<rparr>"
  by (induction items arbitrary: ord) (simp_all add: addItem_def)

lemma resolveItems_cong: "products w' = products w \<Longrightarrow> resolveItems w' js = resolveItems w js"
  by (induction js) (simp_all add: ProductController_get_def split: option.splits)

lemma resolveItems_Inl:
  "resolveItems w js = Inl e \<Longrightarrow>
     \<exists>j \<in> set js. products w (ji_productId j) = None \<and> e = ProductNotFound (ji_productId j)"
  by (induction js) (auto simp: ProductController_get_def split: option.splits sum.splits)

lemma resolveItems_unresolved:
  "\<exists>j \<in> set js. products w (ji_productId j) = None \<Longrightarrow> \<exists>e. resolveItems w js = Inl e"
proof (induction js)
  case Nil
  then show ?case by simp
next
  case (Cons a js)
  show ?case
  proof (cases "products w (ji_productId a)")
    case None
    then show ?thesis by (simp add: ProductController_get_def)
  next
    case (Some p)
    with Cons.prems have "\<exists>j \<in> set js. products w (ji_productId j) = None" by auto
    then obtain e where "resolveItems w js = Inl e" using Cons.IH by blast
    then show ?thesis using Some by (simp add: ProductController_get_def)
  qed
qed

lemma resolveItems_Inr:
  "resolveItems w js = Inr ls \<Longrightarrow>
     list_all2 (\<lambda>j l. products w (ji_productId j) = Some (product l) \<and> quantity l = ji_quantity j) js ls"
  by (induction js arbitrary: ls) (auto simp: ProductController_get_def split: option.splits sum.splits)

lemma parseOrderJSON_Inl:
  assumes "parseOrderJSON w j = Inl e"
  shows "\<exists>i \<in> set (j_items j). products w (ji_productId i) = None \<and> e = ProductNotFound (ji_productId i)"
proof -
  from assms have "resolveItems w (j_items j) = Inl e"
    unfolding parseOrderJSON_def by (simp split: sum.splits)
  then show ?thesis by (rule resolveItems_Inl)
qed

text \<open>
  A checkout that passes its four checks stores shipment, payment and order, and then
  either fails in hydrating the stored order or goes on to update the stock and clear
  the cart.
\<close>

lemma checkout_run:
  assumes "loggedInUser w = Some uid" and "uid \<noteq> []"
    and "truthy (pd_type pd)" and "truthy (sd_type sd)"
    and "getAccount w uid = Some usr"
    and "getCart w (u_id usr) = Some crt"
    and "c_items crt \<noteq> []"
    and "\<not> list_ex (\<lambda>item. getItemQuantity (catalogue w) (product item) < quantity item) (c_items crt)"
  shows "checkout sv pd sd w =
           (case parseOrderJSON (persisted sv pd sd usr crt w) (orderRecord sv usr crt) of
              Inl e \<Rightarrow> (Inl e, persisted sv pd sd usr crt w)
            | Inr createdOrder \<Rightarrow> (Inr createdOrder, settled sv pd sd usr crt w))"
  using assms
  unfolding checkout_def
  by (simp add: Let_def fold_addItem new_Order_def setShipment_def setPayment_def
      storeShipment_def storePayment_def createOrder_def OrderRepository_create_def
      getCatalogue_def settled_def persisted_def orderRecord_def builtShipment_def
      builtPayment_def completedUpdates_def
      split: sum.splits)

lemma checkout_short:
  assumes "loggedInUser w = Some uid" and "uid \<noteq> []"
    and "truthy (pd_type pd)" and "truthy (sd_type sd)"
    and "getAccount w uid = Some usr"
    and "getCart w (u_id usr) = Some crt"
    and "c_items crt \<noteq> []"
    and "list_ex (\<lambda>item. getItemQuantity (catalogue w) (product item) < quantity item) (c_items crt)"
  shows "checkout sv pd sd w = (Inl InsufficientStock, w)"
  using assms unfolding checkout_def by (simp add: getCatalogue_def)

lemma checkout_not_short:
  assumes "loggedInUser w = Some uid" and "uid \<noteq> []"
    and "truthy (pd_type pd)" and "truthy (sd_type sd)"
    and "getAccount w uid = Some usr"
    and "getCart w (u_id usr) = Some crt"
    and "c_items crt \<noteq> []"
    and "\<not> list_ex (\<lambda>item. getItemQuantity (catalogue w) (product item) < quantity item) (c_items crt)"
  shows "fst (checkout sv pd sd w) \<noteq> Inl InsufficientStock"
proof (cases "parseOrderJSON (persisted sv pd sd usr crt w) (orderRecord sv usr crt)")
  case (Inl e)
  from parseOrderJSON_Inl [OF Inl] obtain i :: item_json
    where "e = ProductNotFound (ji_productId i)" by blast
  then show ?thesis using Inl checkout_run [OF assms, of sv] by simp
next
  case (Inr ord)
  then show ?thesis using checkout_run [OF assms, of sv] by simp
qed

lemma fold_updateProductQuantity:
  "fold updateProductQuantity us w
     = w\<lparr>catalogue := fold (\<lambda>u c. c(fst u := snd u)) us (catalogue w),
         journal := journal w @ map (\<lambda>u. QuantityUpdated (fst u) (snd u)) us\<rparr>"
  by (induction us arbitrary: w) (simp_all add: updateProductQuantity_def)

lemma settled_fields:
  "shipments (settled sv pd sd usr crt w) = shipments (persisted sv pd sd usr crt w)"
  "payments (settled sv pd sd usr crt w) = payments (persisted sv pd sd usr crt w)"
  "orders (settled sv pd sd usr crt w) = orders (persisted sv pd sd usr crt w)"
  "products (settled sv pd sd usr crt w) = products w"
  "catalogue (settled sv pd sd usr crt w)
     = fold (\<lambda>u c. c(fst u := snd u)) (completedUpdates sv crt w) (catalogue w)"
  "journal (settled sv pd sd usr crt w)
     = journal (persisted sv pd sd usr crt w)
         @ map (\<lambda>u. QuantityUpdated (fst u) (snd u)) (completedUpdates sv crt w)
         @ [CartEmptied (u_cart usr)]"
  by (simp_all add: settled_def emptyCart_def fold_updateProductQuantity persisted_def)

lemma persisted_fields:
  "shipments (persisted sv pd sd usr crt w)
     = shipments w @ [(builtShipment sv usr sd)\<lparr>sh_id := Some (newShipmentId sv)\<rparr>]"
  "payments (persisted sv pd sd usr crt w)
     = payments w @ [(builtPayment sv usr crt pd sd)\<lparr>pay_id := Some (newPaymentId sv)\<rparr>]"
  "orders (persisted sv pd sd usr crt w) = orders w @ [orderRecord sv usr crt]"
  "products (persisted sv pd sd usr crt w) = products w"
  "catalogue (persisted sv pd sd usr crt w) = catalogue w"
  "carts (persisted sv pd sd usr crt w) = carts w"
  "journal (persisted sv pd sd usr crt w)
     = journal w @ [ShipmentStored (newShipmentId sv), PaymentStored (newPaymentId sv),
                    OrderCreated (newOrderId sv)]"
  by (simp_all add: persisted_def)

lemma checkout_Inr:
  assumes ok: "checkout sv pd sd w = (Inr ord, w')"
    and u: "loggedInUser w = Some uid"
    and a: "getAccount w uid = Some usr"
    and c: "getCart w (u_id usr) = Some crt"
  shows "truthy (pd_type pd)" and "truthy (sd_type sd)" and "c_items crt \<noteq> []"
    and "\<not> list_ex (\<lambda>item. getItemQuantity (catalogue w) (product item) < quantity item) (c_items crt)"
    and "parseOrderJSON (persisted sv pd sd usr crt w) (orderRecord sv usr crt) = Inr ord"
    and "w' = settled sv pd sd usr crt w"
proof -
  have n: "uid \<noteq> []"
    using ok u unfolding checkout_def by (auto split: if_splits)
  have t: "truthy (pd_type pd) \<and> truthy (sd_type sd)"
    using ok u n unfolding checkout_def by (auto split: if_splits)
  then show "truthy (pd_type pd)" and "truthy (sd_type sd)" by simp_all
  show ne: "c_items crt \<noteq> []"
    using ok u n a c t unfolding checkout_def by (auto split: if_splits)
  show ns: "\<not> list_ex (\<lambda>item. getItemQuantity (catalogue w) (product item) < quantity item) (c_items crt)"
    using ok u n a c t ne unfolding checkout_def by (auto simp: getCatalogue_def split: if_splits)
  from t have t1: "truthy (pd_type pd)" and t2: "truthy (sd_type sd)" by simp_all
  note run = checkout_run [OF u n t1 t2 a c ne ns, of sv]
  show "parseOrderJSON (persisted sv pd sd usr crt w) (orderRecord sv usr crt) = Inr ord"
    using ok run by (simp split: sum.splits)
  show "w' = settled sv pd sd usr crt w"
    using ok run by (simp split: sum.splits)
qed

lemma paymentDefaults_ignores_amount:
  "paymentDefaults sv amount (pd\<lparr>pd_amount := a\<rparr>) = paymentDefaults sv amount pd"
  "pd_type (pd\<lparr>pd_amount := a\<rparr>) = pd_type pd"
  by (simp_all add: paymentDefaults_def)

lemma checkout_ignores_amount:
  "checkout sv (pd\<lparr>pd_amount := a\<rparr>) sd w = checkout sv pd sd w"
  unfolding checkout_def paymentDefaults_ignores_amount ..

lemmas stage_defs =
  persisted_def orderRecord_def builtShipment_def builtPayment_def settled_def
  completedUpdates_def stockUpdates_def createPaymentObject_def paymentDefaults_def
  deliveryDefaults_def orElse_def getSubtotalPrice_def parseOrderJSON_def
  ProductController_get_def getPaymentById_def getShipmentById_def placedOrder_def

lemma shop_prechecks:
  "loggedInUser (shop items stk) = Some ''U''" "''U'' \<noteq> []"
  "truthy (pd_type cardDetails)" "truthy (sd_type deliveryDetails)"
  "getAccount (shop items stk) ''U'' = Some userU"
  "getCart (shop items stk) (u_id userU) = Some (cartU items)"
  "c_items (cartU items) = items"
  by (simp_all add: shop_def cardDetails_def deliveryDetails_def getAccount_def getCart_def
      userU_def cartU_def)

lemma basket_checkout:
  "checkout (desk picks) cardDetails deliveryDetails (shop basket (stock 5 5))
     = (Inr (placedOrder basket 28),
        settled (desk picks) cardDetails deliveryDetails userU (cartU basket)
          (shop basket (stock 5 5)))"
proof -
  have ne: "c_items (cartU basket) \<noteq> []" by (simp add: cartU_def basket_def)
  have ns: "\<not> list_ex (\<lambda>item. getItemQuantity (catalogue (shop basket (stock 5 5))) (product item)
                           < quantity item) (c_items (cartU basket))"
    by (simp add: shop_defs)
  have "parseOrderJSON (persisted (desk picks) cardDetails deliveryDetails userU (cartU basket)
                          (shop basket (stock 5 5)))
          (orderRecord (desk picks) userU (cartU basket)) = Inr (placedOrder basket 28)"
    by (simp add: stage_defs shop_defs)
  then show ?thesis
    using checkout_run [OF shop_prechecks(1-6) ne ns, of "desk picks"] by simp
qed

lemma doubled_checkout:
  "checkout (desk picks) cardDetails deliveryDetails (shop doubled (stock 5 5))
     = (Inr (placedOrder doubled 63),
        settled (desk picks) cardDetails deliveryDetails userU (cartU doubled)
          (shop doubled (stock 5 5)))"
proof -
  have ne: "c_items (cartU doubled) \<noteq> []" by (simp add: cartU_def doubled_def)
  have ns: "\<not> list_ex (\<lambda>item. getItemQuantity (catalogue (shop doubled (stock 5 5))) (product item)
                           < quantity item) (c_items (cartU doubled))"
    by (simp add: shop_defs)
  have "parseOrderJSON (persisted (desk picks) cardDetails deliveryDetails userU (cartU doubled)
                          (shop doubled (stock 5 5)))
          (orderRecord (desk picks) userU (cartU doubled)) = Inr (placedOrder doubled 63)"
    by (simp add: stage_defs shop_defs)
  then show ?thesis
    using checkout_run [OF shop_prechecks(1-6) ne ns, of "desk picks"] by simp
qed

lemma mset_completionOrder: "mset (completionOrder ks xs) = mset xs"
proof (induction ks xs rule: completionOrder.induct)
  case (3 k ks x xs)
  let ?ys = "x # xs"
  let ?i = "k mod length ?ys"
  have i: "?i < length ?ys" by simp
  have "mset ?ys = mset (take ?i ?ys @ ?ys ! ?i # drop (Suc ?i) ?ys)"
    using id_take_nth_drop [OF i] by simp
  then show ?case using 3 by (simp del: length_Cons take_Suc_Cons drop_Suc_Cons nth_Cons_Suc)
qed simp_all

lemma set_completedUpdates:
  "set (completedUpdates sv crt w) = set (stockUpdates (catalogue w) (c_items crt))"
  unfolding completedUpdates_def using mset_completionOrder by (metis set_mset_mset)

lemma fold_update_last:
  "fold (\<lambda>u c. c(fst u := snd u)) us c p
     = (if \<exists>u \<in> set us. fst u = p then snd (last (filter (\<lambda>u. fst u = p) us)) else c p)"
proof (induction us rule: rev_induct)
  case Nil
  show ?case by simp
next
  case (snoc u us)
  show ?case
  proof (cases "fst u = p")
    case True
    then show ?thesis by simp
  next
    case False
    then show ?thesis using snoc by auto
  qed
qed

text \<open>
  The quantity a settled checkout leaves for the product of a cart line: the one
  written by the update that completed last among those for this product, which is the
  snapshot quantity less the quantity of one of the cart's lines for the product.
\<close>

lemma settled_quantity:
  assumes item: "item \<in> set (c_items crt)"
  shows "\<exists>l \<in> set (linesFor (p_id (product item)) (c_items crt)).
           last (filter (\<lambda>u. fst u = p_id (product item)) (completedUpdates sv crt w))
             = (p_id (product item), getItemQuantity (catalogue w) (product item) - quantity l)
         \<and> getItemQuantity (catalogue (settled sv pd sd usr crt w)) (product item)
             = getItemQuantity (catalogue w) (product item) - quantity l"
proof -
  let ?p = "p_id (product item)"
  let ?us = "completedUpdates sv crt w"
  let ?fs = "filter (\<lambda>u. fst u = ?p) ?us"
  have mem: "(?p, getItemQuantity (catalogue w) (product item) - quantity item) \<in> set ?us"
    using item by (auto simp: set_completedUpdates stockUpdates_def)
  then have ex: "\<exists>u \<in> set ?us. fst u = ?p" by force
  then have "?fs \<noteq> []" by (simp add: filter_empty_conv)
  then have "last ?fs \<in> set ?fs" by (rule last_in_set)
  then have "last ?fs \<in> set (stockUpdates (catalogue w) (c_items crt))" and f: "fst (last ?fs) = ?p"
    by (simp_all add: set_completedUpdates)
  then obtain l where l: "l \<in> set (c_items crt)"
    "last ?fs = (p_id (product l), getItemQuantity (catalogue w) (product l) - quantity l)"
    by (auto simp: stockUpdates_def)
  with f have same: "p_id (product l) = ?p" by simp
  then have q: "getItemQuantity (catalogue w) (product l) = getItemQuantity (catalogue w) (product item)"
    by (simp add: getItemQuantity_def)
  have "catalogue (settled sv pd sd usr crt w) ?p = snd (last ?fs)"
    using ex by (simp add: settled_fields fold_update_last)
  then have "getItemQuantity (catalogue (settled sv pd sd usr crt w)) (product item)
               = getItemQuantity (catalogue w) (product item) - quantity l"
    using l(2) q by (simp add: getItemQuantity_def)
  moreover have "l \<in> set (linesFor ?p (c_items crt))"
    using l(1) same by (simp add: linesFor_def)
  moreover have "last ?fs = (?p, getItemQuantity (catalogue w) (product item) - quantity l)"
    using l(2) same q by simp
  ultimately show ?thesis by blast
qed

lemma sum_list_pos_quantities:
  "ls \<noteq> [] \<Longrightarrow> \<forall>l \<in> set ls. 0 < quantity l \<Longrightarrow> 0 < sum_list (map quantity ls)"
proof (induction ls)
  case Nil
  then show ?case by simp
next
  case (Cons a ls)
  show ?case
  proof (cases "ls = []")
    case True
    then show ?thesis using Cons.prems by simp
  next
    case False
    then have "0 < sum_list (map quantity ls)" using Cons by simp
    moreover have "0 < quantity a" using Cons.prems by simp
    ultimately show ?thesis by simp
  qed
qed

lemma one_line_less_than_all:
  assumes "l \<in> set ls" and "2 \<le> length ls" and "\<forall>x \<in> set ls. 0 < quantity x"
  shows "quantity l < sum_list (map quantity ls)"
proof -
  have split: "sum_list (map quantity ls) = quantity l + sum_list (map quantity (remove1 l ls))"
    using assms(1) by (rule sum_list_map_remove1)
  have "length (remove1 l ls) = length ls - 1"
    using assms(1) by (simp add: length_remove1)
  then have "remove1 l ls \<noteq> []" using assms(2) by auto
  moreover have "\<forall>x \<in> set (remove1 l ls). 0 < quantity x"
    using assms(3) by (meson notin_set_remove1)
  ultimately have "0 < sum_list (map quantity (remove1 l ls))"
    by (rule sum_list_pos_quantities)
  with split show ?thesis by simp
qed

lemma doubled_settled:
  "getItemQuantity (catalogue (settled (desk []) cardDetails deliveryDetails userU (cartU doubled)
                                 (shop doubled (stock 5 5)))) prodA = 1"
  "getItemQuantity (catalogue (settled (desk [Suc 0]) cardDetails deliveryDetails userU (cartU doubled)
                                 (shop doubled (stock 5 5)))) prodA = 3"
  "getItemQuantity (catalogue (shop doubled (stock 5 5))) prodA = 5"
  by (simp_all add: settled_fields completedUpdates_def stockUpdates_def shop_defs)

lemma getOrderById_Some:
  assumes "getOrderById w oid = Inr (Some ord)"
  shows "\<exists>j. find (\<lambda>j. j_id j = oid) (orders w) = Some j
             \<and> list_all2 (\<lambda>ji item. ProductController_get w (ji_productId ji) = Some (product item)
                                     \<and> quantity item = ji_quantity ji) (j_items j) (o_items ord)"
proof -
  from assms obtain j where j: "find (\<lambda>j. j_id j = oid) (orders w) = Some j"
    and p: "parseOrderJSON w j = Inr ord"
    unfolding getOrderById_def by (auto split: option.splits sum.splits)
  from p obtain ls where ls: "resolveItems w (j_items j) = Inr ls" and o: "o_items ord = ls"
    unfolding parseOrderJSON_def by (auto split: sum.splits)
  from resolveItems_Inr [OF ls] o
  have "list_all2 (\<lambda>ji item. ProductController_get w (ji_productId ji) = Some (product item)
                              \<and> quantity item = ji_quantity ji) (j_items j) (o_items ord)"
    by (simp add: ProductController_get_def)
  with j show ?thesis by blast
qed

lemma repriced_order:
  "getOrderById repriced ''o1'' = Inr (Some repricedOrder)"
  by (simp add: getOrderById_def repriced_def settled_fields persisted_fields parseOrderJSON_def
      orderRecord_def ProductController_get_def getPaymentById_def getShipmentById_def
      builtPayment_def builtShipment_def createPaymentObject_def paymentDefaults_def
      deliveryDefaults_def orElse_def getSubtotalPrice_def repricedOrder_def placedOrder_def
      shop_defs dearerA_def)

lemma repriced_receipt:
  "generateReceipt repriced repricedOrder = Inr repricedReceipt"
  by (simp add: generateReceipt_def verify_def repricedOrder_def placedOrder_def getAccount_def
      repriced_def settled_def emptyCart_def fold_updateProductQuantity persisted_def shop_def
      repricedReceipt_def getTotalPrice_def dearerA_def prodA_def prodB_def)

lemma stale_receipt:
  "generateReceipt repriced (placedOrder basket 28) = Inr staleReceipt"
  by (simp add: generateReceipt_def verify_def placedOrder_def getAccount_def
      repriced_def settled_def emptyCart_def fold_updateProductQuantity persisted_def shop_def
      staleReceipt_def getTotalPrice_def basket_def prodA_def prodB_def)

lemma generateReceipt_call_result:
  "generateReceipt_call w ord = (generateReceipt w ord, ord, w)"
  unfolding generateReceipt_call_def generateReceipt_def by (simp split: option.splits)

section \<open>Checkout: failures before anything is stored\<close>

text \<open>
  C7: an authenticated checkout with both type fields present (truthy, as the source
  tests them) whose user's cart has no items fails with \<open>EmptyCart\<close>, the message
  "Cart is empty", and leaves every store as it was: the returned world is the given
  one, journal included, so no shipment, payment or order is stored, no stock is updated
  and no cart is changed.
\<close>

theorem checkout_EmptyCart:
  assumes "loggedInUser w = Some uid" and "uid \<noteq> []"
    and "truthy (pd_type pd)" and "truthy (sd_type sd)"
    and "getAccount w uid = Some usr"
    and "getCart w (u_id usr) = Some crt"
    and "c_items crt = []"
  shows "checkout sv pd sd w = (Inl EmptyCart, w)"
  using assms unfolding checkout_def by simp

theorem checkout_EmptyCart_witness:
  "loggedInUser (shop [] (stock 5 5)) = Some ''U''
   \<and> truthy (pd_type cardDetails) \<and> truthy (sd_type deliveryDetails)
   \<and> getAccount (shop [] (stock 5 5)) ''U'' = Some userU
   \<and> getCart (shop [] (stock 5 5)) (u_id userU) = Some (cartU [])
   \<and> c_items (cartU []) = []
   \<and> checkout (desk []) cardDetails deliveryDetails (shop [] (stock 5 5))
       = (Inl (Error ''Cart is empty''), shop [] (stock 5 5))"
proof -
  have h: "loggedInUser (shop [] (stock 5 5)) = Some ''U''" "''U'' \<noteq> []"
    "truthy (pd_type cardDetails)" "truthy (sd_type deliveryDetails)"
    "getAccount (shop [] (stock 5 5)) ''U'' = Some userU"
    "getCart (shop [] (stock 5 5)) (u_id userU) = Some (cartU [])"
    "c_items (cartU []) = []"
    by (simp_all add: shop_def cardDetails_def deliveryDetails_def getAccount_def getCart_def
        userU_def cartU_def)
  show ?thesis using h checkout_EmptyCart [OF h, of "desk []"] by simp
qed

text \<open>
  C1, as the code has it: for a checkout that passes the authentication, type-presence
  and non-empty-cart checks, the result is \<open>InsufficientStock\<close> exactly when some cart
  line asks for more than the catalogue snapshot holds of its product; the failure is
  then the fixed message "One or more products are not available", which does not say
  which product fell short, and the world is returned as it was given: nothing is
  stored, no stock is updated, the cart is unchanged.
\<close>

theorem checkout_InsufficientStock:
  assumes "loggedInUser w = Some uid" and "uid \<noteq> []"
    and "truthy (pd_type pd)" and "truthy (sd_type sd)"
    and "getAccount w uid = Some usr"
    and "getCart w (u_id usr) = Some crt"
    and "c_items crt \<noteq> []"
  shows "(fst (checkout sv pd sd w) = Inl InsufficientStock
            \<longleftrightarrow> (\<exists>item \<in> set (c_items crt).
                   getItemQuantity (getCatalogue w) (product item) < quantity item))
         \<and> ((\<exists>item \<in> set (c_items crt).
                   getItemQuantity (getCatalogue w) (product item) < quantity item)
              \<longrightarrow> checkout sv pd sd w
                    = (Inl (Error ''One or more products are not available''), w))"
proof (cases "list_ex (\<lambda>item. getItemQuantity (catalogue w) (product item) < quantity item)
                (c_items crt)")
  case True
  from checkout_short [OF assms True]
  have "checkout sv pd sd w = (Inl InsufficientStock, w)" .
  then show ?thesis using True by (simp add: list_ex_iff getCatalogue_def)
next
  case False
  from checkout_not_short [OF assms False]
  have "fst (checkout sv pd sd w) \<noteq> Inl InsufficientStock" .
  then show ?thesis using False by (simp add: list_ex_iff getCatalogue_def)
qed

theorem checkout_InsufficientStock_witness:
  "loggedInUser (shop [\<lparr>product = prodA, quantity = 2\<rparr>, \<lparr>product = prodB, quantity = 1\<rparr>]
                   (stock 1 5)) = Some ''U''
   \<and> truthy (pd_type cardDetails) \<and> truthy (sd_type deliveryDetails)
   \<and> checkout (desk []) cardDetails deliveryDetails
         (shop [\<lparr>product = prodA, quantity = 2\<rparr>, \<lparr>product = prodB, quantity = 1\<rparr>]
            (stock 1 5))
       = (Inl (Error ''One or more products are not available''),
          shop [\<lparr>product = prodA, quantity = 2\<rparr>, \<lparr>product = prodB, quantity = 1\<rparr>]
            (stock 1 5))"
proof -
  let ?items = "[\<lparr>product = prodA, quantity = 2\<rparr>, \<lparr>product = prodB, quantity = 1\<rparr>]"
  let ?w = "shop ?items (stock 1 5)"
  have h: "loggedInUser ?w = Some ''U''" "''U'' \<noteq> []"
    "truthy (pd_type cardDetails)" "truthy (sd_type deliveryDetails)"
    "getAccount ?w ''U'' = Some userU"
    "getCart ?w (u_id userU) = Some (cartU ?items)"
    "c_items (cartU ?items) \<noteq> []"
    by (simp_all add: shop_defs)
  have short: "\<exists>item \<in> set (c_items (cartU ?items)).
                 getItemQuantity (getCatalogue ?w) (product item) < quantity item"
    by (simp add: shop_defs)
  show ?thesis
    using h short checkout_InsufficientStock [OF h, of "desk []"] by blast
qed

text \<open>
  The claim that the failure names the offending product does not hold: the same cart
  fails against a stock short of A and against a stock short of B with one and the same
  failure value.
\<close>

theorem checkout_InsufficientStock_counterexample:
  "offending (stock 1 5)
     [\<lparr>product = prodA, quantity = 2\<rparr>, \<lparr>product = prodB, quantity = 1\<rparr>] = [''A'']
   \<and> offending (stock 5 0)
     [\<lparr>product = prodA, quantity = 2\<rparr>, \<lparr>product = prodB, quantity = 1\<rparr>] = [''B'']
   \<and> fst (checkout (desk []) cardDetails deliveryDetails
            (shop [\<lparr>product = prodA, quantity = 2\<rparr>, \<lparr>product = prodB, quantity = 1\<rparr>]
               (stock 1 5)))
       = Inl (Error ''One or more products are not available'')
   \<and> fst (checkout (desk []) cardDetails deliveryDetails
            (shop [\<lparr>product = prodA, quantity = 2\<rparr>, \<lparr>product = prodB, quantity = 1\<rparr>]
               (stock 5 0)))
       = Inl (Error ''One or more products are not available'')"
  by (simp add: offending_def checkout_def shop_defs)

section \<open>Checkout: what a call that passes the checks stores\<close>

text \<open>
  C2: after a successful checkout the payment store holds one more payment, the one
  stored by this call, and its amount is the cart subtotal plus the fee of the shipment
  stored by this call. An amount supplied by the caller plays no part: the call gives
  the same result whatever \<open>paymentDetails.amount\<close> is.
\<close>

theorem checkout_payment_amount:
  assumes "checkout sv pd sd w = (Inr ord, w')"
    and "loggedInUser w = Some uid"
    and "getAccount w uid = Some usr"
    and "getCart w (u_id usr) = Some crt"
  shows "\<exists>s p. shipments w' = shipments w @ [s]
             \<and> payments w' = payments w @ [p]
             \<and> pay_id p = Some (newPaymentId sv)
             \<and> pay_amount p = Some (getSubtotalPrice crt + sh_fee s)
             \<and> checkout sv (pd\<lparr>pd_amount := a\<rparr>) sd w = (Inr ord, w')"
proof -
  have w': "w' = settled sv pd sd usr crt w" by (rule checkout_Inr(6) [OF assms])
  let ?s = "(builtShipment sv usr sd)\<lparr>sh_id := Some (newShipmentId sv)\<rparr>"
  let ?p = "(builtPayment sv usr crt pd sd)\<lparr>pay_id := Some (newPaymentId sv)\<rparr>"
  have "shipments w' = shipments w @ [?s]" and "payments w' = payments w @ [?p]"
    by (simp_all add: w' settled_fields persisted_fields)
  moreover have "pay_id ?p = Some (newPaymentId sv)" by simp
  moreover have "pay_amount ?p = Some (getSubtotalPrice crt + sh_fee ?s)"
    by (simp add: builtPayment_def createPaymentObject_def paymentDefaults_def Let_def)
  moreover have "checkout sv (pd\<lparr>pd_amount := a\<rparr>) sd w = (Inr ord, w')"
    using assms(1) by (simp add: checkout_ignores_amount)
  ultimately show ?thesis by blast
qed

theorem checkout_payment_amount_witness:
  "checkout (desk []) cardDetails deliveryDetails (shop basket (stock 5 5))
     = (Inr (placedOrder basket 28),
        settled (desk []) cardDetails deliveryDetails userU (cartU basket) (shop basket (stock 5 5)))
   \<and> loggedInUser (shop basket (stock 5 5)) = Some ''U''
   \<and> getAccount (shop basket (stock 5 5)) ''U'' = Some userU
   \<and> getCart (shop basket (stock 5 5)) (u_id userU) = Some (cartU basket)
   \<and> (\<exists>s p. shipments (settled (desk []) cardDetails deliveryDetails userU (cartU basket)
                          (shop basket (stock 5 5))) = [s]
             \<and> payments (settled (desk []) cardDetails deliveryDetails userU (cartU basket)
                          (shop basket (stock 5 5))) = [p]
             \<and> pay_amount p = Some 28 \<and> sh_fee s = 3)
   \<and> getSubtotalPrice (cartU basket) = 25
   \<and> checkout (desk []) (cardDetails\<lparr>pd_amount := Some 1\<rparr>) deliveryDetails
         (shop basket (stock 5 5))
     = (Inr (placedOrder basket 28),
        settled (desk []) cardDetails deliveryDetails userU (cartU basket) (shop basket (stock 5 5)))"
proof -
  note t = checkout_payment_amount [OF basket_checkout shop_prechecks(1,5,6), of "[]" "Some 1"]
  have sub: "getSubtotalPrice (cartU basket) = 25"
    by (simp add: getSubtotalPrice_def shop_defs)
  have sh: "shipments (shop basket (stock 5 5)) = []" "payments (shop basket (stock 5 5)) = []"
    by (simp_all add: shop_def)
  from t obtain s p where
    "shipments (settled (desk []) cardDetails deliveryDetails userU (cartU basket)
                  (shop basket (stock 5 5))) = [s]"
    "payments (settled (desk []) cardDetails deliveryDetails userU (cartU basket)
                  (shop basket (stock 5 5))) = [p]"
    "pay_amount p = Some (25 + sh_fee s)"
    by (auto simp: sub sh)
  moreover from this(1) have "sh_fee s = 3"
    by (auto simp: settled_fields persisted_fields builtShipment_def desk_def sh)
  ultimately show ?thesis
    using t basket_checkout shop_prechecks sub by auto
qed

text \<open>
  C8: a checkout that passes its checks constructs and stores one payment. If
  \<open>paymentDetails.type\<close> is "card", its expiry date is the caller's when the caller
  supplied one (a non-empty string: the source tests it with \<open>||\<close>) and the current
  timestamp otherwise, and its gateway is the caller's when supplied and "Tyro"
  otherwise. For any other type both attributes are exactly what the caller passed,
  absent included.
\<close>

theorem checkout_card_defaults:
  assumes "loggedInUser w = Some uid" and "uid \<noteq> []"
    and "truthy (pd_type pd)" and "truthy (sd_type sd)"
    and "getAccount w uid = Some usr"
    and "getCart w (u_id usr) = Some crt"
    and "c_items crt \<noteq> []"
    and fits: "\<forall>item \<in> set (c_items crt).
                 quantity item \<le> getItemQuantity (getCatalogue w) (product item)"
  shows "\<exists>p. payments (snd (checkout sv pd sd w)) = payments w @ [p]
           \<and> (pd_type pd = Some ''card'' \<longrightarrow>
                  pay_expiryDate p = (if truthy (pd_expiryDate pd) then pd_expiryDate pd
                                      else Some (now sv))
                \<and> pay_paymentGateway p = (if truthy (pd_paymentGateway pd)
                                           then pd_paymentGateway pd else Some ''Tyro''))
           \<and> (pd_type pd \<noteq> Some ''card'' \<longrightarrow>
                  pay_expiryDate p = pd_expiryDate pd
                \<and> pay_paymentGateway p = pd_paymentGateway pd)"
proof -
  have ns: "\<not> list_ex (\<lambda>item. getItemQuantity (catalogue w) (product item) < quantity item)
                 (c_items crt)"
    using fits by (auto simp: list_ex_iff getCatalogue_def)
  note run = checkout_run [OF assms(1-7) ns, of sv]
  let ?p = "(builtPayment sv usr crt pd sd)\<lparr>pay_id := Some (newPaymentId sv)\<rparr>"
  have "payments (snd (checkout sv pd sd w)) = payments w @ [?p]"
    using run by (simp add: settled_fields persisted_fields split: sum.splits)
  moreover have "pd_type pd = Some ''card'' \<longrightarrow>
                  pay_expiryDate ?p = (if truthy (pd_expiryDate pd) then pd_expiryDate pd
                                       else Some (now sv))
                \<and> pay_paymentGateway ?p = (if truthy (pd_paymentGateway pd)
                                            then pd_paymentGateway pd else Some ''Tyro'')"
    by (simp add: builtPayment_def createPaymentObject_def paymentDefaults_def orElse_def)
  moreover have "pd_type pd \<noteq> Some ''card'' \<longrightarrow>
                  pay_expiryDate ?p = pd_expiryDate pd
                \<and> pay_paymentGateway ?p = pd_paymentGateway pd"
    by (simp add: builtPayment_def createPaymentObject_def paymentDefaults_def)
  ultimately show ?thesis by blast
qed

theorem checkout_card_defaults_witness:
  "loggedInUser (shop basket (stock 5 5)) = Some ''U''
   \<and> truthy (pd_type cardDetails) \<and> truthy (sd_type deliveryDetails)
   \<and> getAccount (shop basket (stock 5 5)) ''U'' = Some userU
   \<and> getCart (shop basket (stock 5 5)) (u_id userU) = Some (cartU basket)
   \<and> c_items (cartU basket) \<noteq> []
   \<and> pd_type cardDetails = Some ''card'' \<and> pd_expiryDate cardDetails = None
   \<and> pd_paymentGateway cardDetails = None
   \<and> map pay_expiryDate (payments (snd (checkout (desk []) cardDetails deliveryDetails
                                            (shop basket (stock 5 5)))))
       = [Some ''2024-01-01T00:00:00.000Z'']
   \<and> map pay_paymentGateway (payments (snd (checkout (desk []) cardDetails deliveryDetails
                                                (shop basket (stock 5 5)))))
       = [Some ''Tyro'']
   \<and> map pay_expiryDate
         (payments (snd (checkout (desk []) (cardDetails\<lparr>pd_expiryDate := Some ''2030-01''\<rparr>)
                           deliveryDetails (shop basket (stock 5 5)))))
       = [Some ''2030-01'']
   \<and> map pay_expiryDate
         (payments (snd (checkout (desk []) (cardDetails\<lparr>pd_type := Some ''cash''\<rparr>)
                           deliveryDetails (shop basket (stock 5 5)))))
       = [None]
   \<and> map pay_paymentGateway
         (payments (snd (checkout (desk []) (cardDetails\<lparr>pd_type := Some ''cash''\<rparr>)
                           deliveryDetails (shop basket (stock 5 5)))))
       = [None]"
proof -
  let ?w = "shop basket (stock 5 5)"
  have ne: "c_items (cartU basket) \<noteq> []" by (simp add: cartU_def basket_def)
  have fits: "\<forall>item \<in> set (c_items (cartU basket)).
                quantity item \<le> getItemQuantity (getCatalogue ?w) (product item)"
    by (simp add: shop_defs)
  have ty: "truthy (pd_type (cardDetails\<lparr>pd_expiryDate := Some ''2030-01''\<rparr>))"
    "truthy (pd_type (cardDetails\<lparr>pd_type := Some ''cash''\<rparr>))"
    by (simp_all add: cardDetails_def)
  note card = checkout_card_defaults [OF shop_prechecks(1-6) ne fits, of "desk []"]
  note dated = checkout_card_defaults [OF shop_prechecks(1,2) ty(1) shop_prechecks(4-6) ne fits,
      of "desk []"]
  note cash = checkout_card_defaults [OF shop_prechecks(1,2) ty(2) shop_prechecks(4-6) ne fits,
      of "desk []"]
  have e: "payments ?w = []" by (simp add: shop_def)
  have d: "pd_type cardDetails = Some ''card''" "pd_expiryDate cardDetails = None"
    "pd_paymentGateway cardDetails = None" "now (desk []) = ''2024-01-01T00:00:00.000Z''"
    by (simp_all add: cardDetails_def desk_def)
  from card have
    "map pay_expiryDate (payments (snd (checkout (desk []) cardDetails deliveryDetails ?w)))
       = [Some ''2024-01-01T00:00:00.000Z'']"
    "map pay_paymentGateway (payments (snd (checkout (desk []) cardDetails deliveryDetails ?w)))
       = [Some ''Tyro'']"
    by (auto simp: e d)
  moreover from dated have
    "map pay_expiryDate
       (payments (snd (checkout (desk []) (cardDetails\<lparr>pd_expiryDate := Some ''2030-01''\<rparr>)
                         deliveryDetails ?w))) = [Some ''2030-01'']"
    by (auto simp: e d)
  moreover from cash have
    "map pay_expiryDate
       (payments (snd (checkout (desk []) (cardDetails\<lparr>pd_type := Some ''cash''\<rparr>)
                         deliveryDetails ?w))) = [None]"
    "map pay_paymentGateway
       (payments (snd (checkout (desk []) (cardDetails\<lparr>pd_type := Some ''cash''\<rparr>)
                         deliveryDetails ?w))) = [None]"
    by (auto simp: e d)
  ultimately show ?thesis
    using shop_prechecks(1-6) ne d by simp
qed

text \<open>
  C9: after a successful checkout the order store holds one more record, which
  references the identifiers of the shipment and the payment stored by this call, has
  status "Pending" and cancellation false, and carries the user's identifier and the
  cart's lines; the journal of store writes shows the shipment stored first, then the
  payment, then the order, before any other write of the call. The returned order is
  that record, hydrated.
\<close>

theorem checkout_persists_order:
  assumes "checkout sv pd sd w = (Inr ord, w')"
    and "loggedInUser w = Some uid"
    and "getAccount w uid = Some usr"
    and "getCart w (u_id usr) = Some crt"
  shows "\<exists>s p j rest.
           shipments w' = shipments w @ [s] \<and> sh_id s = Some (newShipmentId sv)
         \<and> payments w' = payments w @ [p] \<and> pay_id p = Some (newPaymentId sv)
         \<and> orders w' = orders w @ [j] \<and> j_id j = newOrderId sv
         \<and> j_paymentId j = pay_id p \<and> j_shipmentId j = sh_id s
         \<and> j_status j = ''Pending'' \<and> j_cancellation j = False
         \<and> j_userId j = u_id usr
         \<and> j_items j = map (\<lambda>item. \<lparr>ji_productId = p_id (product item),
                                        ji_quantity = quantity item\<rparr>) (c_items crt)
         \<and> journal w' = journal w @ [ShipmentStored (newShipmentId sv),
                                      PaymentStored (newPaymentId sv),
                                      OrderCreated (j_id j)] @ rest
         \<and> o_id ord = Some (j_id j) \<and> o_status ord = ''Pending'' \<and> o_cancellation ord = False"
proof -
  have w': "w' = settled sv pd sd usr crt w" by (rule checkout_Inr(6) [OF assms])
  have parsed: "parseOrderJSON (persisted sv pd sd usr crt w) (orderRecord sv usr crt) = Inr ord"
    by (rule checkout_Inr(5) [OF assms])
  let ?s = "(builtShipment sv usr sd)\<lparr>sh_id := Some (newShipmentId sv)\<rparr>"
  let ?p = "(builtPayment sv usr crt pd sd)\<lparr>pay_id := Some (newPaymentId sv)\<rparr>"
  let ?j = "orderRecord sv usr crt"
  let ?rest = "map (\<lambda>u. QuantityUpdated (fst u) (snd u)) (completedUpdates sv crt w)
                 @ [CartEmptied (u_cart usr)]"
  have 1: "shipments w' = shipments w @ [?s]" "payments w' = payments w @ [?p]"
    "orders w' = orders w @ [?j]"
    by (simp_all add: w' settled_fields persisted_fields)
  have 2: "sh_id ?s = Some (newShipmentId sv)" "pay_id ?p = Some (newPaymentId sv)"
    "j_id ?j = newOrderId sv" "j_paymentId ?j = pay_id ?p" "j_shipmentId ?j = sh_id ?s"
    "j_status ?j = ''Pending''" "j_cancellation ?j = False" "j_userId ?j = u_id usr"
    "j_items ?j = map (\<lambda>item. \<lparr>ji_productId = p_id (product item),
                                   ji_quantity = quantity item\<rparr>) (c_items crt)"
    by (simp_all add: orderRecord_def)
  have 3: "journal w' = journal w @ [ShipmentStored (newShipmentId sv),
                                     PaymentStored (newPaymentId sv),
                                     OrderCreated (j_id ?j)] @ ?rest"
    by (simp add: w' settled_fields persisted_fields orderRecord_def)
  have 4: "o_id ord = Some (j_id ?j)" "o_status ord = ''Pending''" "o_cancellation ord = False"
    using parsed unfolding parseOrderJSON_def
    by (auto simp: orderRecord_def split: sum.splits)
  show ?thesis
    using 1 2 3 4 by blast
qed

theorem checkout_persists_order_witness:
  "checkout (desk []) cardDetails deliveryDetails (shop basket (stock 5 5))
     = (Inr (placedOrder basket 28),
        settled (desk []) cardDetails deliveryDetails userU (cartU basket) (shop basket (stock 5 5)))
   \<and> loggedInUser (shop basket (stock 5 5)) = Some ''U''
   \<and> getAccount (shop basket (stock 5 5)) ''U'' = Some userU
   \<and> getCart (shop basket (stock 5 5)) (u_id userU) = Some (cartU basket)
   \<and> (\<exists>j. orders (settled (desk []) cardDetails deliveryDetails userU (cartU basket)
                      (shop basket (stock 5 5))) = [j]
          \<and> j_paymentId j = Some ''p1'' \<and> j_shipmentId j = Some ''s1''
          \<and> j_status j = ''Pending'' \<and> j_cancellation j = False)
   \<and> journal (settled (desk []) cardDetails deliveryDetails userU (cartU basket)
                (shop basket (stock 5 5)))
       = [ShipmentStored ''s1'', PaymentStored ''p1'', OrderCreated ''o1'',
          QuantityUpdated ''A'' 3, QuantityUpdated ''B'' 4, CartEmptied (Some ''cartU'')]"
proof -
  note t = checkout_persists_order [OF basket_checkout shop_prechecks(1,5,6), of "[]"]
  have e: "orders (shop basket (stock 5 5)) = []" by (simp add: shop_def)
  from t obtain j where
    "orders (settled (desk []) cardDetails deliveryDetails userU (cartU basket)
               (shop basket (stock 5 5))) = [j]"
    "j_paymentId j = Some (newPaymentId (desk []))" "j_shipmentId j = Some (newShipmentId (desk []))"
    "j_status j = ''Pending''" "j_cancellation j = False"
    by (auto simp: e)
  moreover have "journal (settled (desk []) cardDetails deliveryDetails userU (cartU basket)
                (shop basket (stock 5 5)))
       = [ShipmentStored ''s1'', PaymentStored ''p1'', OrderCreated ''o1'',
          QuantityUpdated ''A'' 3, QuantityUpdated ''B'' 4, CartEmptied (Some ''cartU'')]"
    by (simp add: settled_fields persisted_fields completedUpdates_def stockUpdates_def
        shop_defs)
  ultimately show ?thesis
    using basket_checkout shop_prechecks by (auto simp: desk_def)
qed

section \<open>Checkout: a failure in hydrating the stored order\<close>

text \<open>
  C10: checkout hydrates the order record right after storing it. If the checks pass
  and some cart line's product identifier does not resolve in the product store, the
  call fails with "Product not found" for such an identifier; the shipment, the payment
  and the order of this call are stored by then, and nothing else has happened: the
  catalogue and the carts are as they were, and the journal ends with the three stores.
\<close>

theorem checkout_hydration_failure:
  assumes "loggedInUser w = Some uid" and "uid \<noteq> []"
    and "truthy (pd_type pd)" and "truthy (sd_type sd)"
    and "getAccount w uid = Some usr"
    and "getCart w (u_id usr) = Some crt"
    and "c_items crt \<noteq> []"
    and fits: "\<forall>item \<in> set (c_items crt).
                 quantity item \<le> getItemQuantity (getCatalogue w) (product item)"
    and unresolved: "\<exists>item \<in> set (c_items crt).
                       ProductController_get w (p_id (product item)) = None"
  shows "(\<exists>item \<in> set (c_items crt).
            ProductController_get w (p_id (product item)) = None
            \<and> fst (checkout sv pd sd w) = Inl (ProductNotFound (p_id (product item))))
       \<and> (\<exists>s p j. shipments (snd (checkout sv pd sd w)) = shipments w @ [s]
                 \<and> sh_id s = Some (newShipmentId sv)
                 \<and> payments (snd (checkout sv pd sd w)) = payments w @ [p]
                 \<and> pay_id p = Some (newPaymentId sv)
                 \<and> orders (snd (checkout sv pd sd w)) = orders w @ [j]
                 \<and> j_id j = newOrderId sv
                 \<and> j_paymentId j = pay_id p \<and> j_shipmentId j = sh_id s
                 \<and> journal (snd (checkout sv pd sd w))
                     = journal w @ [ShipmentStored (newShipmentId sv),
                                    PaymentStored (newPaymentId sv), OrderCreated (j_id j)])
       \<and> catalogue (snd (checkout sv pd sd w)) = catalogue w
       \<and> carts (snd (checkout sv pd sd w)) = carts w"
proof -
  let ?w3 = "persisted sv pd sd usr crt w"
  let ?j = "orderRecord sv usr crt"
  have ns: "\<not> list_ex (\<lambda>item. getItemQuantity (catalogue w) (product item) < quantity item)
                 (c_items crt)"
    using fits by (auto simp: list_ex_iff getCatalogue_def)
  note run = checkout_run [OF assms(1-7) ns, of sv]
  have res: "resolveItems ?w3 (j_items ?j) = resolveItems w (j_items ?j)"
    by (rule resolveItems_cong) (simp add: persisted_fields)
  from unresolved have "\<exists>i \<in> set (j_items ?j). products w (ji_productId i) = None"
    by (auto simp: orderRecord_def ProductController_get_def)
  then obtain e where e: "resolveItems w (j_items ?j) = Inl e"
    using resolveItems_unresolved by blast
  from resolveItems_Inl [OF e] obtain i :: item_json
    where i: "i \<in> set (j_items ?j)" "products w (ji_productId i) = None"
      "e = ProductNotFound (ji_productId i)" by blast
  from i(1) obtain item where item: "item \<in> set (c_items crt)" "ji_productId i = p_id (product item)"
    by (auto simp: orderRecord_def)
  have parsed: "parseOrderJSON ?w3 ?j = Inl e"
    unfolding parseOrderJSON_def using res e by simp
  have out: "checkout sv pd sd w = (Inl e, ?w3)"
    using run parsed by simp
  have a: "\<exists>item \<in> set (c_items crt).
            ProductController_get w (p_id (product item)) = None
            \<and> fst (checkout sv pd sd w) = Inl (ProductNotFound (p_id (product item)))"
    using item i out by (auto simp: ProductController_get_def)
  let ?s = "(builtShipment sv usr sd)\<lparr>sh_id := Some (newShipmentId sv)\<rparr>"
  let ?p = "(builtPayment sv usr crt pd sd)\<lparr>pay_id := Some (newPaymentId sv)\<rparr>"
  have b: "shipments (snd (checkout sv pd sd w)) = shipments w @ [?s]"
    "sh_id ?s = Some (newShipmentId sv)"
    "payments (snd (checkout sv pd sd w)) = payments w @ [?p]"
    "pay_id ?p = Some (newPaymentId sv)"
    "orders (snd (checkout sv pd sd w)) = orders w @ [?j]"
    "j_id ?j = newOrderId sv"
    "j_paymentId ?j = pay_id ?p" "j_shipmentId ?j = sh_id ?s"
    "journal (snd (checkout sv pd sd w))
       = journal w @ [ShipmentStored (newShipmentId sv),
                      PaymentStored (newPaymentId sv), OrderCreated (j_id ?j)]"
    by (simp_all add: out persisted_fields orderRecord_def)
  have c: "catalogue (snd (checkout sv pd sd w)) = catalogue w"
    "carts (snd (checkout sv pd sd w)) = carts w"
    by (simp_all add: out persisted_fields)
  from b have "\<exists>s p j. shipments (snd (checkout sv pd sd w)) = shipments w @ [s]
                 \<and> sh_id s = Some (newShipmentId sv)
                 \<and> payments (snd (checkout sv pd sd w)) = payments w @ [p]
                 \<and> pay_id p = Some (newPaymentId sv)
                 \<and> orders (snd (checkout sv pd sd w)) = orders w @ [j]
                 \<and> j_id j = newOrderId sv
                 \<and> j_paymentId j = pay_id p \<and> j_shipmentId j = sh_id s
                 \<and> journal (snd (checkout sv pd sd w))
                     = journal w @ [ShipmentStored (newShipmentId sv),
                                    PaymentStored (newPaymentId sv), OrderCreated (j_id j)]"
    by blast
  with a c show ?thesis by blast
qed

theorem checkout_hydration_failure_witness:
  "loggedInUser (shop orphan ((stock 5 5)(''C'' := 1))) = Some ''U''
   \<and> truthy (pd_type cardDetails) \<and> truthy (sd_type deliveryDetails)
   \<and> getAccount (shop orphan ((stock 5 5)(''C'' := 1))) ''U'' = Some userU
   \<and> getCart (shop orphan ((stock 5 5)(''C'' := 1))) (u_id userU) = Some (cartU orphan)
   \<and> c_items (cartU orphan) \<noteq> []
   \<and> ProductController_get (shop orphan ((stock 5 5)(''C'' := 1))) ''C'' = None
   \<and> fst (checkout (desk []) cardDetails deliveryDetails (shop orphan ((stock 5 5)(''C'' := 1))))
       = Inl (Error ''Product not found: C'')
   \<and> map sh_id (shipments (snd (checkout (desk []) cardDetails deliveryDetails
                                     (shop orphan ((stock 5 5)(''C'' := 1)))))) = [Some ''s1'']
   \<and> map pay_id (payments (snd (checkout (desk []) cardDetails deliveryDetails
                                     (shop orphan ((stock 5 5)(''C'' := 1)))))) = [Some ''p1'']
   \<and> map j_id (orders (snd (checkout (desk []) cardDetails deliveryDetails
                                (shop orphan ((stock 5 5)(''C'' := 1)))))) = [''o1'']
   \<and> journal (snd (checkout (desk []) cardDetails deliveryDetails
                        (shop orphan ((stock 5 5)(''C'' := 1)))))
       = [ShipmentStored ''s1'', PaymentStored ''p1'', OrderCreated ''o1'']
   \<and> catalogue (snd (checkout (desk []) cardDetails deliveryDetails
                          (shop orphan ((stock 5 5)(''C'' := 1))))) = (stock 5 5)(''C'' := 1)
   \<and> carts (snd (checkout (desk []) cardDetails deliveryDetails
                      (shop orphan ((stock 5 5)(''C'' := 1))))) = [cartU orphan]"
proof -
  let ?w = "shop orphan ((stock 5 5)(''C'' := 1))"
  have ne: "c_items (cartU orphan) \<noteq> []" by (simp add: cartU_def orphan_def)
  have fits: "\<forall>item \<in> set (c_items (cartU orphan)).
                quantity item \<le> getItemQuantity (getCatalogue ?w) (product item)"
    by (simp add: shop_defs)
  have un: "\<exists>item \<in> set (c_items (cartU orphan)).
              ProductController_get ?w (p_id (product item)) = None"
    by (simp add: shop_defs ProductController_get_def)
  note t = checkout_hydration_failure [OF shop_prechecks(1-6) ne fits un, of "desk []"]
  have c: "ProductController_get ?w ''C'' = None"
    by (simp add: shop_defs ProductController_get_def)
  have w: "shipments ?w = []" "payments ?w = []" "orders ?w = []" "journal ?w = []"
    "catalogue ?w = (stock 5 5)(''C'' := 1)" "carts ?w = [cartU orphan]"
    by (simp_all add: shop_def)
  have ids: "newShipmentId (desk []) = ''s1''" "newPaymentId (desk []) = ''p1''"
    "newOrderId (desk []) = ''o1''"
    by (simp_all add: desk_def)
  from t have "fst (checkout (desk []) cardDetails deliveryDetails ?w)
                 = Inl (Error ''Product not found: C'')"
    by (auto simp: cartU_def orphan_def prodC_def)
  moreover from t have "map sh_id (shipments (snd (checkout (desk []) cardDetails deliveryDetails ?w)))
                          = [Some ''s1'']"
    "map pay_id (payments (snd (checkout (desk []) cardDetails deliveryDetails ?w))) = [Some ''p1'']"
    by (auto simp: w ids)
  moreover from t have "catalogue (snd (checkout (desk []) cardDetails deliveryDetails ?w))
                          = (stock 5 5)(''C'' := 1)"
    "carts (snd (checkout (desk []) cardDetails deliveryDetails ?w)) = [cartU orphan]"
    by (simp_all add: w)
  moreover from t have
    "map j_id (orders (snd (checkout (desk []) cardDetails deliveryDetails ?w))) = [''o1'']"
    "journal (snd (checkout (desk []) cardDetails deliveryDetails ?w))
       = [ShipmentStored ''s1'', PaymentStored ''p1'', OrderCreated ''o1'']"
    by (auto simp: w ids)
  ultimately show ?thesis
    using shop_prechecks(1-6) ne c by auto
qed

section \<open>Checkout: the stock after a successful call\<close>

text \<open>
  C3, as the code has it: the lines of the order are the lines of the cart, and one
  update per line is issued with the snapshot quantity less that line's quantity. After
  a successful checkout, for every ordered line whose product is the product of no
  other line with a different quantity, the catalogue quantity of the line's product is
  the snapshot quantity less the line's quantity, in whatever order the updates
  complete.
\<close>

theorem checkout_stock_decrement:
  assumes "checkout sv pd sd w = (Inr ord, w')"
    and "loggedInUser w = Some uid"
    and "getAccount w uid = Some usr"
    and "getCart w (u_id usr) = Some crt"
    and item: "item \<in> set (c_items crt)"
    and same: "\<forall>other \<in> set (c_items crt).
                 p_id (product other) = p_id (product item) \<longrightarrow> quantity other = quantity item"
  shows "getItemQuantity (catalogue w') (product item)
           = getItemQuantity (getCatalogue w) (product item) - quantity item"
proof -
  have w': "w' = settled sv pd sd usr crt w" by (rule checkout_Inr(6) [OF assms(1-4)])
  from settled_quantity [OF item, of sv w pd sd usr]
  obtain l where l: "l \<in> set (linesFor (p_id (product item)) (c_items crt))"
    "getItemQuantity (catalogue (settled sv pd sd usr crt w)) (product item)
       = getItemQuantity (catalogue w) (product item) - quantity l"
    by blast
  from l(1) same have "quantity l = quantity item" by (simp add: linesFor_def)
  with l(2) show ?thesis by (simp add: w' getCatalogue_def)
qed

theorem checkout_stock_decrement_witness:
  "checkout (desk []) cardDetails deliveryDetails (shop basket (stock 5 5))
     = (Inr (placedOrder basket 28),
        settled (desk []) cardDetails deliveryDetails userU (cartU basket) (shop basket (stock 5 5)))
   \<and> loggedInUser (shop basket (stock 5 5)) = Some ''U''
   \<and> getAccount (shop basket (stock 5 5)) ''U'' = Some userU
   \<and> getCart (shop basket (stock 5 5)) (u_id userU) = Some (cartU basket)
   \<and> \<lparr>product = prodA, quantity = 2\<rparr> \<in> set (c_items (cartU basket))
   \<and> \<lparr>product = prodB, quantity = 1\<rparr> \<in> set (c_items (cartU basket))
   \<and> getItemQuantity (catalogue (settled (desk []) cardDetails deliveryDetails userU
                                      (cartU basket) (shop basket (stock 5 5)))) prodA = 3
   \<and> getItemQuantity (catalogue (settled (desk []) cardDetails deliveryDetails userU
                                      (cartU basket) (shop basket (stock 5 5)))) prodB = 4"
proof -
  let ?w = "shop basket (stock 5 5)"
  have inA: "\<lparr>product = prodA, quantity = 2\<rparr> \<in> set (c_items (cartU basket))"
    and inB: "\<lparr>product = prodB, quantity = 1\<rparr> \<in> set (c_items (cartU basket))"
    by (simp_all add: cartU_def basket_def)
  have sameA: "\<forall>other \<in> set (c_items (cartU basket)).
                 p_id (product other) = p_id (product \<lparr>product = prodA, quantity = 2\<rparr>)
                 \<longrightarrow> quantity other = quantity \<lparr>product = prodA, quantity = 2\<rparr>"
    and sameB: "\<forall>other \<in> set (c_items (cartU basket)).
                 p_id (product other) = p_id (product \<lparr>product = prodB, quantity = 1\<rparr>)
                 \<longrightarrow> quantity other = quantity \<lparr>product = prodB, quantity = 1\<rparr>"
    by (simp_all add: cartU_def basket_def prodA_def prodB_def)
  note a = checkout_stock_decrement [OF basket_checkout shop_prechecks(1,5,6) inA sameA, of "[]"]
  note b = checkout_stock_decrement [OF basket_checkout shop_prechecks(1,5,6) inB sameB, of "[]"]
  have q: "getItemQuantity (getCatalogue ?w) prodA = 5" "getItemQuantity (getCatalogue ?w) prodB = 5"
    by (simp_all add: shop_defs)
  show ?thesis
    using a b q inA inB basket_checkout shop_prechecks(1,5,6) by simp
qed

text \<open>
  The claim as stated fails for a cart with two lines for product A, of quantities 2
  and 4, against a stock of 5: the checkout succeeds, and the quantity left is 1 when the
  updates complete in the order issued (the line of quantity 2 would need 3) and 3 when
  they complete in the other order (the line of quantity 4 would need 1).
\<close>

theorem checkout_stock_decrement_counterexample:
  "checkout (desk []) cardDetails deliveryDetails (shop doubled (stock 5 5))
     = (Inr (placedOrder doubled 63),
        settled (desk []) cardDetails deliveryDetails userU (cartU doubled) (shop doubled (stock 5 5)))
   \<and> \<lparr>product = prodA, quantity = 2\<rparr> \<in> set (o_items (placedOrder doubled 63))
   \<and> getItemQuantity (catalogue (settled (desk []) cardDetails deliveryDetails userU
                                      (cartU doubled) (shop doubled (stock 5 5)))) prodA
       \<noteq> getItemQuantity (catalogue (shop doubled (stock 5 5))) prodA - 2
   \<and> checkout (desk [Suc 0]) cardDetails deliveryDetails (shop doubled (stock 5 5))
     = (Inr (placedOrder doubled 63),
        settled (desk [Suc 0]) cardDetails deliveryDetails userU (cartU doubled) (shop doubled (stock 5 5)))
   \<and> \<lparr>product = prodA, quantity = 4\<rparr> \<in> set (o_items (placedOrder doubled 63))
   \<and> getItemQuantity (catalogue (settled (desk [Suc 0]) cardDetails deliveryDetails userU
                                      (cartU doubled) (shop doubled (stock 5 5)))) prodA
       \<noteq> getItemQuantity (catalogue (shop doubled (stock 5 5))) prodA - 4"
proof -
  have lines: "\<lparr>product = prodA, quantity = 2\<rparr> \<in> set (o_items (placedOrder doubled 63))"
    "\<lparr>product = prodA, quantity = 4\<rparr> \<in> set (o_items (placedOrder doubled 63))"
    by (simp_all add: placedOrder_def doubled_def)
  have off: "getItemQuantity (catalogue (settled (desk []) cardDetails deliveryDetails userU
                                      (cartU doubled) (shop doubled (stock 5 5)))) prodA
       \<noteq> getItemQuantity (catalogue (shop doubled (stock 5 5))) prodA - 2"
    "getItemQuantity (catalogue (settled (desk [Suc 0]) cardDetails deliveryDetails userU
                                      (cartU doubled) (shop doubled (stock 5 5)))) prodA
       \<noteq> getItemQuantity (catalogue (shop doubled (stock 5 5))) prodA - 4"
    by (simp_all add: doubled_settled)
  show ?thesis
    using doubled_checkout [of "[]"] doubled_checkout [of "[Suc 0]"] lines off by simp
qed

text \<open>
  C4: every cart line is checked on its own against the one snapshot, so the stock check
  passes exactly when each line fits, whatever the lines for one product add up to. On
  success the updates that complete are the issued ones, one per line, each writing the
  snapshot quantity less that line's quantity; the quantity left for a product is the
  one written by the update that completed last, that is the snapshot quantity less the
  quantity of a single line; with two or more lines of positive quantity for the product
  this is more than the snapshot quantity less the sum of their quantities.
\<close>

theorem checkout_duplicate_lines:
  assumes "loggedInUser w = Some uid" and "uid \<noteq> []"
    and "truthy (pd_type pd)" and "truthy (sd_type sd)"
    and "getAccount w uid = Some usr"
    and "getCart w (u_id usr) = Some crt"
    and "c_items crt \<noteq> []"
  shows "(fst (checkout sv pd sd w) \<noteq> Inl InsufficientStock
            \<longleftrightarrow> (\<forall>item \<in> set (c_items crt).
                   quantity item \<le> getItemQuantity (getCatalogue w) (product item)))
       \<and> mset (completedUpdates sv crt w) = mset (stockUpdates (getCatalogue w) (c_items crt))
       \<and> (checkout sv pd sd w = (Inr ord, w') \<and> item \<in> set (c_items crt) \<longrightarrow>
            (\<exists>l \<in> set (linesFor (p_id (product item)) (c_items crt)).
                 last (filter (\<lambda>u. fst u = p_id (product item)) (completedUpdates sv crt w))
                   = (p_id (product item),
                      getItemQuantity (getCatalogue w) (product item) - quantity l)
               \<and> getItemQuantity (catalogue w') (product item)
                   = getItemQuantity (getCatalogue w) (product item) - quantity l)
          \<and> (2 \<le> length (linesFor (p_id (product item)) (c_items crt))
               \<and> (\<forall>l \<in> set (linesFor (p_id (product item)) (c_items crt)). 0 < quantity l)
               \<longrightarrow> getItemQuantity (getCatalogue w) (product item)
                       - sum_list (map quantity (linesFor (p_id (product item)) (c_items crt)))
                     < getItemQuantity (catalogue w') (product item)))"
proof -
  let ?short = "list_ex (\<lambda>item. getItemQuantity (catalogue w) (product item) < quantity item)
                  (c_items crt)"
  have a: "fst (checkout sv pd sd w) \<noteq> Inl InsufficientStock
            \<longleftrightarrow> (\<forall>item \<in> set (c_items crt).
                   quantity item \<le> getItemQuantity (getCatalogue w) (product item))"
  proof (cases ?short)
    case True
    from checkout_short [OF assms True]
    have "checkout sv pd sd w = (Inl InsufficientStock, w)" .
    then show ?thesis using True by (auto simp: list_ex_iff getCatalogue_def not_le)
  next
    case False
    from checkout_not_short [OF assms False]
    have "fst (checkout sv pd sd w) \<noteq> Inl InsufficientStock" .
    then show ?thesis using False by (auto simp: list_ex_iff getCatalogue_def not_less)
  qed
  have b: "mset (completedUpdates sv crt w) = mset (stockUpdates (getCatalogue w) (c_items crt))"
    by (simp add: completedUpdates_def mset_completionOrder getCatalogue_def)
  have c: "(\<exists>l \<in> set (linesFor (p_id (product item)) (c_items crt)).
                 last (filter (\<lambda>u. fst u = p_id (product item)) (completedUpdates sv crt w))
                   = (p_id (product item),
                      getItemQuantity (getCatalogue w) (product item) - quantity l)
               \<and> getItemQuantity (catalogue w') (product item)
                   = getItemQuantity (getCatalogue w) (product item) - quantity l)
          \<and> (2 \<le> length (linesFor (p_id (product item)) (c_items crt))
               \<and> (\<forall>l \<in> set (linesFor (p_id (product item)) (c_items crt)). 0 < quantity l)
               \<longrightarrow> getItemQuantity (getCatalogue w) (product item)
                       - sum_list (map quantity (linesFor (p_id (product item)) (c_items crt)))
                     < getItemQuantity (catalogue w') (product item))"
    if ok: "checkout sv pd sd w = (Inr ord, w')" and item: "item \<in> set (c_items crt)"
  proof -
    have w': "w' = settled sv pd sd usr crt w"
      by (rule checkout_Inr(6) [OF ok assms(1,5,6)])
    from settled_quantity [OF item, of sv w pd sd usr]
    obtain l where l: "l \<in> set (linesFor (p_id (product item)) (c_items crt))"
      "last (filter (\<lambda>u. fst u = p_id (product item)) (completedUpdates sv crt w))
         = (p_id (product item), getItemQuantity (catalogue w) (product item) - quantity l)"
      "getItemQuantity (catalogue w') (product item)
         = getItemQuantity (catalogue w) (product item) - quantity l"
      unfolding w' by blast
    have "getItemQuantity (catalogue w) (product item)
            - sum_list (map quantity (linesFor (p_id (product item)) (c_items crt)))
          < getItemQuantity (catalogue w') (product item)"
      if "2 \<le> length (linesFor (p_id (product item)) (c_items crt))"
        and "\<forall>l \<in> set (linesFor (p_id (product item)) (c_items crt)). 0 < quantity l"
      using one_line_less_than_all [OF l(1) that] l(3) by simp
    with l show ?thesis unfolding getCatalogue_def by blast
  qed
  from a b c show ?thesis by blast
qed

theorem checkout_duplicate_lines_witness:
  "loggedInUser (shop doubled (stock 5 5)) = Some ''U''
   \<and> truthy (pd_type cardDetails) \<and> truthy (sd_type deliveryDetails)
   \<and> getAccount (shop doubled (stock 5 5)) ''U'' = Some userU
   \<and> getCart (shop doubled (stock 5 5)) (u_id userU) = Some (cartU doubled)
   \<and> c_items (cartU doubled) \<noteq> []
   \<and> linesFor ''A'' (c_items (cartU doubled))
       = [\<lparr>product = prodA, quantity = 2\<rparr>, \<lparr>product = prodA, quantity = 4\<rparr>]
   \<and> getItemQuantity (getCatalogue (shop doubled (stock 5 5))) prodA = 5
   \<and> fst (checkout (desk []) cardDetails deliveryDetails (shop doubled (stock 5 5)))
       \<noteq> Inl (Error ''One or more products are not available'')
   \<and> checkout (desk []) cardDetails deliveryDetails (shop doubled (stock 5 5))
     = (Inr (placedOrder doubled 63),
        settled (desk []) cardDetails deliveryDetails userU (cartU doubled) (shop doubled (stock 5 5)))
   \<and> completedUpdates (desk []) (cartU doubled) (shop doubled (stock 5 5))
       = [(''A'', 3), (''A'', 1)]
   \<and> getItemQuantity (catalogue (settled (desk []) cardDetails deliveryDetails userU
                                      (cartU doubled) (shop doubled (stock 5 5)))) prodA = 1
   \<and> (5::int) - sum_list (map quantity (linesFor ''A'' (c_items (cartU doubled))))
       < getItemQuantity (catalogue (settled (desk []) cardDetails deliveryDetails userU
                                       (cartU doubled) (shop doubled (stock 5 5)))) prodA"
proof -
  let ?w = "shop doubled (stock 5 5)"
  let ?item = "\<lparr>product = prodA, quantity = 2\<rparr>"
  have ne: "c_items (cartU doubled) \<noteq> []" by (simp add: cartU_def doubled_def)
  note t = checkout_duplicate_lines [OF shop_prechecks(1-6) ne,
      where sv = "desk []" and ord = "placedOrder doubled 63"
        and w' = "settled (desk []) cardDetails deliveryDetails userU (cartU doubled) ?w"
        and item = ?item]
  have fits: "\<forall>item \<in> set (c_items (cartU doubled)).
                quantity item \<le> getItemQuantity (getCatalogue ?w) (product item)"
    by (simp add: shop_defs)
  have inA: "?item \<in> set (c_items (cartU doubled))" by (simp add: cartU_def doubled_def)
  have lines: "linesFor (p_id prodA) (c_items (cartU doubled))
                 = [\<lparr>product = prodA, quantity = 2\<rparr>, \<lparr>product = prodA, quantity = 4\<rparr>]"
    "linesFor ''A'' (c_items (cartU doubled))
                 = [\<lparr>product = prodA, quantity = 2\<rparr>, \<lparr>product = prodA, quantity = 4\<rparr>]"
    by (simp_all add: linesFor_def cartU_def doubled_def prodA_def)
  have q: "getItemQuantity (getCatalogue ?w) prodA = 5" by (simp add: shop_defs)
  have us: "completedUpdates (desk []) (cartU doubled) ?w = [(''A'', 3), (''A'', 1)]"
    by (simp add: completedUpdates_def stockUpdates_def shop_defs)
  from t fits have 1: "fst (checkout (desk []) cardDetails deliveryDetails ?w)
                        \<noteq> Inl (Error ''One or more products are not available'')"
    by blast
  from t doubled_checkout [of "[]"] inA
  have "2 \<le> length (linesFor (p_id (product ?item)) (c_items (cartU doubled)))
        \<and> (\<forall>l \<in> set (linesFor (p_id (product ?item)) (c_items (cartU doubled))). 0 < quantity l)
        \<longrightarrow> getItemQuantity (getCatalogue ?w) (product ?item)
              - sum_list (map quantity (linesFor (p_id (product ?item)) (c_items (cartU doubled))))
            < getItemQuantity (catalogue (settled (desk []) cardDetails deliveryDetails userU
                                            (cartU doubled) ?w)) (product ?item)"
    by blast
  then have 2: "(5::int) - sum_list (map quantity (linesFor ''A'' (c_items (cartU doubled))))
       < getItemQuantity (catalogue (settled (desk []) cardDetails deliveryDetails userU
                                       (cartU doubled) ?w)) prodA"
    using q by (simp add: lines)
  show ?thesis
    using 1 2 q us lines(2) doubled_checkout [of "[]"] doubled_settled(1) shop_prechecks(1-6) ne
    by simp
qed

section \<open>Receipts\<close>

text \<open>
  C5: generateReceipt fails with \<open>InvalidOrder\<close>, the message "Order is not valid",
  exactly when \<open>verify\<close> is false of the order; \<open>verify\<close> holds only of an order with
  a non-empty item list, a set payment and a set shipment; an order that passes
  \<open>verify\<close> and whose user does not resolve fails with \<open>UserNotFound\<close>; and the
  \<open>verify\<close> check comes first: an order that fails it gets \<open>InvalidOrder\<close> also
  when its user does not resolve.
\<close>

theorem generateReceipt_failures:
  "(generateReceipt w ord = Inl InvalidOrder \<longleftrightarrow> \<not> verify ord)
   \<and> (verify ord \<longrightarrow> o_items ord \<noteq> [] \<and> o_payment ord \<noteq> None \<and> o_shipment ord \<noteq> None)
   \<and> (verify ord \<and> getAccount w (o_userId ord) = None
        \<longrightarrow> generateReceipt w ord = Inl (UserNotFound (o_userId ord)))
   \<and> (\<not> verify ord \<and> getAccount w (o_userId ord) = None
        \<longrightarrow> generateReceipt w ord = Inl InvalidOrder)
   \<and> (verify ord \<and> getAccount w (o_userId ord) \<noteq> None
        \<longrightarrow> (\<exists>r. generateReceipt w ord = Inr r))"
  unfolding generateReceipt_def by (auto simp: verify_def split: option.splits)

theorem generateReceipt_failures_witness:
  "\<not> verify ((placedOrder [] 28)\<lparr>o_userId := ''V''\<rparr>)
   \<and> verify ((placedOrder basket 28)\<lparr>o_userId := ''V''\<rparr>)
   \<and> verify (placedOrder basket 28)
   \<and> getAccount (shop basket (stock 5 5)) ''V'' = None
   \<and> generateReceipt (shop basket (stock 5 5)) ((placedOrder [] 28)\<lparr>o_userId := ''V''\<rparr>)
       = Inl (Error ''Order is not valid'')
   \<and> generateReceipt (shop basket (stock 5 5)) ((placedOrder basket 28)\<lparr>o_userId := ''V''\<rparr>)
       = Inl (Error ''User not found: V'')
   \<and> (\<exists>r. generateReceipt (shop basket (stock 5 5)) (placedOrder basket 28) = Inr r)"
proof -
  let ?w = "shop basket (stock 5 5)"
  let ?bad = "(placedOrder [] 28)\<lparr>o_userId := ''V''\<rparr>"
  let ?lost = "(placedOrder basket 28)\<lparr>o_userId := ''V''\<rparr>"
  have v: "\<not> verify ?bad" "verify ?lost" "verify (placedOrder basket 28)"
    by (simp_all add: verify_def placedOrder_def basket_def)
  have a: "getAccount ?w (o_userId ?bad) = None" "getAccount ?w (o_userId ?lost) = None"
    "getAccount ?w ''V'' = None" "getAccount ?w (o_userId (placedOrder basket 28)) \<noteq> None"
    by (simp_all add: getAccount_def shop_def placedOrder_def)
  have u: "o_userId ?lost = ''V''" by simp
  from generateReceipt_failures [of ?w ?bad] v(1)
  have 1: "generateReceipt ?w ?bad = Inl (Error ''Order is not valid'')" by blast
  from generateReceipt_failures [of ?w ?lost] v(2) a(2)
  have "generateReceipt ?w ?lost = Inl (UserNotFound (o_userId ?lost))" by blast
  then have 2: "generateReceipt ?w ?lost = Inl (Error ''User not found: V'')"
    unfolding u by simp
  from generateReceipt_failures [of ?w "placedOrder basket 28"] v(3) a(4)
  have 3: "\<exists>r. generateReceipt ?w (placedOrder basket 28) = Inr r" by blast
  show ?thesis using v a(3) 1 2 3 by blast
qed

text \<open>
  C6, as the code has it: a receipt that generateReceipt returns has as total the
  order's \<open>getTotalPrice\<close>, and one line per order line, in order, with the line's
  product and quantity and with price the product's price times the quantity; the total
  is the sum of the line prices. The price is that of the product object the order
  holds when the receipt is generated; no product is looked up. So a price changed
  after the checkout is on the receipt when the order has been read back from the
  order store after the change (its products are then the ones the product store
  holds), and not otherwise. Generating the receipt has no side effects: the call
  leaves the order object and every store as they were.
\<close>

theorem generateReceipt_prices:
  assumes "generateReceipt w ord = Inr r"
  shows "r_total r = getTotalPrice ord
       \<and> r_items r = map (\<lambda>item. \<lparr>rl_product = product item, rl_quantity = quantity item,
                                    rl_price = p_price (product item) * quantity item\<rparr>)
                        (o_items ord)
       \<and> (\<forall>rl \<in> set (r_items r). rl_price rl = p_price (rl_product rl) * rl_quantity rl)
       \<and> r_total r = sum_list (map rl_price (r_items r))
       \<and> (getOrderById w oid = Inr (Some ord) \<longrightarrow>
            (\<exists>j. find (\<lambda>j. j_id j = oid) (orders w) = Some j
               \<and> list_all2 (\<lambda>ji rl. ProductController_get w (ji_productId ji) = Some (rl_product rl)
                                    \<and> rl_quantity rl = ji_quantity ji
                                    \<and> rl_price rl = p_price (rl_product rl) * ji_quantity ji)
                    (j_items j) (r_items r)))
       \<and> generateReceipt_call w ord = (Inr r, ord, w)"
proof -
  from assms obtain usr where
    r: "r = \<lparr>r_orderId = o_id ord, r_user = usr,
             r_items = map (\<lambda>item. \<lparr>rl_product = product item, rl_quantity = quantity item,
                                     rl_price = p_price (product item) * quantity item\<rparr>)
                         (o_items ord),
             r_total = getTotalPrice ord,
             r_payment = o_payment ord, r_shipment = o_shipment ord\<rparr>"
    unfolding generateReceipt_def by (auto split: if_splits option.splits)
  have 1: "r_total r = getTotalPrice ord" by (simp add: r)
  have 2: "r_items r = map (\<lambda>item. \<lparr>rl_product = product item, rl_quantity = quantity item,
                                    rl_price = p_price (product item) * quantity item\<rparr>)
                        (o_items ord)" by (simp add: r)
  have 3: "\<forall>rl \<in> set (r_items r). rl_price rl = p_price (rl_product rl) * rl_quantity rl"
    by (auto simp: 2)
  have 4: "r_total r = sum_list (map rl_price (r_items r))"
    by (simp add: 1 2 getTotalPrice_def comp_def)
  have 5: "\<exists>j. find (\<lambda>j. j_id j = oid) (orders w) = Some j
               \<and> list_all2 (\<lambda>ji rl. ProductController_get w (ji_productId ji) = Some (rl_product rl)
                                    \<and> rl_quantity rl = ji_quantity ji
                                    \<and> rl_price rl = p_price (rl_product rl) * ji_quantity ji)
                    (j_items j) (r_items r)"
    if "getOrderById w oid = Inr (Some ord)"
  proof -
    from getOrderById_Some [OF that] obtain j where
      j: "find (\<lambda>j. j_id j = oid) (orders w) = Some j"
      and l: "list_all2 (\<lambda>ji item. ProductController_get w (ji_productId ji) = Some (product item)
                                     \<and> quantity item = ji_quantity ji) (j_items j) (o_items ord)"
      by blast
    from l have "list_all2 (\<lambda>ji rl. ProductController_get w (ji_productId ji) = Some (rl_product rl)
                                    \<and> rl_quantity rl = ji_quantity ji
                                    \<and> rl_price rl = p_price (rl_product rl) * ji_quantity ji)
                    (j_items j) (r_items r)"
      unfolding 2 list_all2_map2 by (rule list_all2_mono) simp
    with j show ?thesis by blast
  qed
  have 6: "generateReceipt_call w ord = (Inr r, ord, w)"
    using assms by (simp add: generateReceipt_call_result)
  from 1 2 3 4 5 6 show ?thesis by blast
qed

theorem generateReceipt_prices_witness:
  "generateReceipt repriced repricedOrder = Inr repricedReceipt
   \<and> getOrderById repriced ''o1'' = Inr (Some repricedOrder)
   \<and> ProductController_get repriced ''A'' = Some dearerA
   \<and> p_price dearerA = 12 \<and> p_price prodA = 10
   \<and> map rl_price (r_items repricedReceipt) = [24, 5]
   \<and> r_total repricedReceipt = 29
   \<and> getTotalPrice repricedOrder = 29
   \<and> (\<exists>j. find (\<lambda>j. j_id j = ''o1'') (orders repriced) = Some j
          \<and> list_all2 (\<lambda>ji rl. ProductController_get repriced (ji_productId ji) = Some (rl_product rl)
                               \<and> rl_quantity rl = ji_quantity ji
                               \<and> rl_price rl = p_price (rl_product rl) * ji_quantity ji)
               (j_items j) (r_items repricedReceipt))
   \<and> generateReceipt_call repriced repricedOrder = (Inr repricedReceipt, repricedOrder, repriced)"
proof -
  note t = generateReceipt_prices [OF repriced_receipt, of "''o1''"]
  have "ProductController_get repriced ''A'' = Some dearerA"
    by (simp add: ProductController_get_def repriced_def)
  moreover have "p_price dearerA = 12" "p_price prodA = 10"
    by (simp_all add: dearerA_def prodA_def)
  moreover have "map rl_price (r_items repricedReceipt) = [24, 5]" "r_total repricedReceipt = 29"
    by (simp_all add: repricedReceipt_def)
  moreover from t have "getTotalPrice repricedOrder = 29"
    by (simp add: repricedReceipt_def)
  ultimately show ?thesis
    using t repriced_order repriced_receipt by blast
qed

text \<open>
  The claim as stated fails for the order object that checkout returned: the basket is
  checked out with A at price 10, the price of A then rises to 12 in the product store,
  and the receipt generated from that object at that time still prices the line of two
  A at 20, not 24, and totals 25.
\<close>

theorem generateReceipt_prices_counterexample:
  "checkout (desk []) cardDetails deliveryDetails (shop basket (stock 5 5))
     = (Inr (placedOrder basket 28),
        settled (desk []) cardDetails deliveryDetails userU (cartU basket) (shop basket (stock 5 5)))
   \<and> repriced
       = (settled (desk []) cardDetails deliveryDetails userU (cartU basket)
            (shop basket (stock 5 5)))\<lparr>products := [''A'' \<mapsto> dearerA, ''B'' \<mapsto> prodB]\<rparr>
   \<and> ProductController_get repriced ''A'' = Some dearerA
   \<and> p_id dearerA = ''A'' \<and> p_price dearerA = 12
   \<and> generateReceipt repriced (placedOrder basket 28) = Inr staleReceipt
   \<and> r_items staleReceipt
       = [\<lparr>rl_product = prodA, rl_quantity = 2, rl_price = 20\<rparr>,
          \<lparr>rl_product = prodB, rl_quantity = 1, rl_price = 5\<rparr>]
   \<and> p_id prodA = ''A''
   \<and> (20::int) \<noteq> p_price dearerA * 2
   \<and> r_total staleReceipt = 25"
proof -
  have "ProductController_get repriced ''A'' = Some dearerA"
    by (simp add: ProductController_get_def repriced_def)
  moreover have "p_id dearerA = ''A''" "p_price dearerA = 12" "p_id prodA = ''A''"
    "(20::int) \<noteq> p_price dearerA * 2"
    by (simp_all add: dearerA_def prodA_def)
  moreover have "r_items staleReceipt
       = [\<lparr>rl_product = prodA, rl_quantity = 2, rl_price = 20\<rparr>,
          \<lparr>rl_product = prodB, rl_quantity = 1, rl_price = 5\<rparr>]"
    "r_total staleReceipt = 25"
    by (simp_all add: staleReceipt_def)
  ultimately show ?thesis
    using basket_checkout [of "[]"] stale_receipt repriced_def by simp
qed

end
